theory Spec2Isabelle
  imports Main
begin

section \<open>Python strings\<close>

text \<open>
  A Python \<open>str\<close> is a sequence of Unicode code points and \<open>len\<close> counts code points,
  so a string is modelled as a list of code points. \<open>asc\<close> embeds an ASCII literal.
\<close>

type_synonym str = "nat list"

definition asc :: "string \<Rightarrow> str" where
  "asc s = map of_char s"

text \<open>\<open>sub in text\<close>: \<open>sub\<close> occurs in \<open>text\<close> as a contiguous run.\<close>

fun starts_with :: "str \<Rightarrow> str \<Rightarrow> bool" where
  "starts_with [] t = True"
| "starts_with (k # ks) [] = False"
| "starts_with (k # ks) (c # cs) = (k = c \<and> starts_with ks cs)"

fun contains :: "str \<Rightarrow> str \<Rightarrow> bool" where
  "contains k [] = (k = [])"
| "contains k (c # cs) = (starts_with k (c # cs) \<or> contains k cs)"

text \<open>
  \<open>str.lower\<close> is the Unicode case mapping of the Python runtime; the functions below take it
  as the parameter \<open>lower\<close>. \<open>ascii_lower\<close> is that mapping on strings whose only cased letters
  are ASCII (it maps \<open>A\<close>..\<open>Z\<close> to \<open>a\<close>..\<open>z\<close> and leaves every other code point alone, as
  \<open>str.lower\<close> does for digits, punctuation and caseless scripts such as Devanagari).
\<close>

definition ascii_lower_cp :: "nat \<Rightarrow> nat" where
  "ascii_lower_cp c = (if 65 \<le> c \<and> c \<le> 90 then c + 32 else c)"

definition ascii_lower :: "str \<Rightarrow> str" where
  "ascii_lower s = map ascii_lower_cp s"

section \<open>Router (services/llm/router.py)\<close>

definition INDIC_LANGS :: "str set" where
  "INDIC_LANGS = {asc ''hi'', asc ''bn'', asc ''mr'', asc ''ta'', asc ''te'',
                  asc ''gu'', asc ''kn'', asc ''ml'', asc ''or'', asc ''pa''}"

definition HEAVY_KEYWORDS :: "str list" where
  "HEAVY_KEYWORDS = [asc ''step by step'', asc ''detailed'', asc ''detail'', asc ''explain'',
                     asc ''code'', asc ''algorithm'', asc ''complex'', asc ''advanced'']"

text \<open>The \<open>for keyword in HEAVY_KEYWORDS\<close> loop: \<open>True\<close> when some iteration returns.\<close>

fun any_keyword_in :: "str list \<Rightarrow> str \<Rightarrow> bool" where
  "any_keyword_in [] text_lower = False"
| "any_keyword_in (keyword # rest) text_lower =
     (if contains keyword text_lower then True else any_keyword_in rest text_lower)"

definition choose_model :: "(str \<Rightarrow> str) \<Rightarrow> str \<Rightarrow> str \<Rightarrow> str" where
  "choose_model lower user_text lang_code =
     (let text_lower = lower user_text in
      if length user_text > 300 then asc ''heavy''
      else if any_keyword_in HEAVY_KEYWORDS text_lower then asc ''heavy''
      else if lang_code \<in> INDIC_LANGS \<and> length user_text \<le> 300 then asc ''light''
      else asc ''heavy'')"

text \<open>The Hindi greeting of the router's unit test, U+0928 U+092E U+0938 U+094D U+0924 U+0947.\<close>

definition namaste :: str where
  "namaste = [2344, 2350, 2360, 2381, 2340, 2375]"

section \<open>More of the Python string library\<close>

definition nl :: str where
  "nl = [10]"

text \<open>\<open>str.isspace\<close> on one code point: the Unicode white space of CPython.\<close>

definition is_space :: "nat \<Rightarrow> bool" where
  "is_space c \<longleftrightarrow>
     (9 \<le> c \<and> c \<le> 13) \<or> (28 \<le> c \<and> c \<le> 32) \<or> c = 133 \<or> c = 160 \<or> c = 5760
     \<or> (8192 \<le> c \<and> c \<le> 8202) \<or> c = 8232 \<or> c = 8233 \<or> c = 8239 \<or> c = 8287
     \<or> c = 12288"

definition strip :: "str \<Rightarrow> str" where
  "strip s = rev (dropWhile is_space (rev (dropWhile is_space s)))"

text \<open>\<open>s.split()\<close>: the maximal runs of non-space code points, in order.\<close>

fun split_from :: "str \<Rightarrow> str \<Rightarrow> str list" where
  "split_from word [] = (if word = [] then [] else [word])"
| "split_from word (c # cs) =
     (if is_space c then (if word = [] then split_from [] cs else word # split_from [] cs)
      else split_from (word @ [c]) cs)"

definition split :: "str \<Rightarrow> str list" where
  "split s = split_from [] s"

fun join :: "str \<Rightarrow> str list \<Rightarrow> str" where
  "join sep [] = []"
| "join sep [x] = x"
| "join sep (x # y # ys) = x @ sep @ join sep (y # ys)"

text \<open>
  Slice bounds: a negative index counts from the end, and both ends are clipped to the
  string, as \<open>text[start:end]\<close> and \<open>text.rfind(sub, start, end)\<close> do.
\<close>

definition adjust_index :: "nat \<Rightarrow> int \<Rightarrow> nat" where
  "adjust_index n i = (if i < 0 then nat (max 0 (i + int n)) else min (nat i) n)"

definition slice :: "str \<Rightarrow> int \<Rightarrow> int \<Rightarrow> str" where
  "slice s start end =
     (let lo = adjust_index (length s) start; hi = adjust_index (length s) end
      in drop lo (take hi s))"

text \<open>
  \<open>s.rfind(sub, start, end)\<close>: the highest index of an occurrence of \<open>sub\<close> lying wholly
  inside \<open>s[start:end]\<close>, or \<open>-1\<close>.
\<close>

definition rfind :: "str \<Rightarrow> str \<Rightarrow> int \<Rightarrow> int \<Rightarrow> int" where
  "rfind s sub start end =
     (let lo = adjust_index (length s) start; hi = adjust_index (length s) end;
          hits = filter (\<lambda>i. take (length sub) (drop i s) = sub) [lo ..< Suc hi - length sub]
      in if hi < lo + length sub then - 1
         else if hits = [] then - 1 else int (last hits))"

section \<open>Chunker (services/documents/parsers.py)\<close>

definition boundary_chars :: "str list" where
  "boundary_chars = [asc ''. '', asc ''? '', asc ''! '', nl @ nl]"

text \<open>
  The \<open>for char_seq in boundary_chars\<close> loop with its \<open>break\<close>; the last argument of the
  first equation is the initial \<open>best_break = end\<close>.
\<close>

fun find_break :: "str list \<Rightarrow> str \<Rightarrow> int \<Rightarrow> int \<Rightarrow> int \<Rightarrow> int" where
  "find_break [] s start end chunk_size = end"
| "find_break (char_seq # rest) s start end chunk_size =
     (let pos = rfind s char_seq start end in
      if pos > start + chunk_size div 2 then pos + int (length char_seq)
      else find_break rest s start end chunk_size)"

text \<open>
  The \<open>while start < text_length\<close> loop. It need not terminate, so it is a partial function:
  \<open>None\<close> is a run that never returns.
\<close>

partial_function (option) chunk_loop ::
  "str \<Rightarrow> int \<Rightarrow> int \<Rightarrow> int \<Rightarrow> str list \<Rightarrow> str list option" where
  "chunk_loop s chunk_size overlap start chunks =
     (let text_length = int (length s) in
      if start < text_length then
        (let end0 = start + chunk_size;
             end = (if end0 < text_length
                    then find_break boundary_chars s start end0 chunk_size else end0);
             chunk = strip (slice s start end);
             chunks' = (if chunk \<noteq> [] then chunks @ [chunk] else chunks);
             start' = (if end < text_length then end - overlap else text_length)
         in chunk_loop s chunk_size overlap start' chunks')
      else Some chunks)"

declare chunk_loop.simps [code]

definition chunk_text :: "str \<Rightarrow> int \<Rightarrow> int \<Rightarrow> str list option" where
  "chunk_text s chunk_size overlap =
     (if s = [] then Some [] else chunk_loop s chunk_size overlap 0 [])"


text \<open>
  The value of \<open>end\<close> when the chunk is cut, for a window that starts at \<open>start\<close>: the
  first half of the loop body. It serves to state what one iteration does.
\<close>

definition next_end :: "str \<Rightarrow> int \<Rightarrow> int \<Rightarrow> int" where
  "next_end s chunk_size start =
     (if start + chunk_size < int (length s)
      then find_break boundary_chars s start (start + chunk_size) chunk_size
      else start + chunk_size)"

section \<open>Errors, records and the world\<close>

text \<open>
  An exception that leaves a handler is a value: \<open>HTTPException\<close> with its status code and
  detail, \<open>ValueError\<close> and \<open>InvalidId\<close> (bson) with their argument, and \<open>Exception\<close> for any
  other exception, with its message \<open>str(e)\<close>. An external call that may raise returns
  \<open>Inl\<close> of the message.
\<close>

datatype error = HTTPException nat str | ValueError str | InvalidId str | Exception str

datatype backend = Sarvam | Llama

record message =
  role :: str
  content :: str

record chat_result =
  reply :: str
  model_used :: str
  result_session_id :: "str option"

text \<open>
  The documents of the collections. The \<open>created_at\<close>, \<open>updated_at\<close> and \<open>timestamp\<close>
  fields are left out: nothing in the code reads them.
\<close>

record session_record =
  s_user_id :: str
  s_memori_session_id :: str
  s_title :: str

record message_record =
  m_session_id :: str
  m_sender :: str
  m_text :: str
  m_lang :: str
  m_model_used :: "str option"

record memori_record =
  entity_id :: str
  process_id :: str
  session_id :: str
  user_message :: str
  assistant_message :: str
  mem_model_used :: str

record document_record =
  d_user_id :: str
  d_filename :: str
  d_mime_type :: str
  d_original_path :: str

record chunk_record =
  c_document_id :: str
  c_user_id :: str
  c_text :: str
  c_chunk_index :: nat

text \<open>
  The state the handlers act on: the five collections (sessions and documents with the id
  the store gave them), the upload directory, and the calls made to the two model backends,
  in order.
\<close>

record world =
  sessions_col :: "(str \<times> session_record) list"
  messages_col :: "message_record list"
  memori_messages :: "memori_record list"
  documents_col :: "(str \<times> document_record) list"
  chunks_col :: "chunk_record list"
  uploads :: "str \<rightharpoonup> nat list"
  llm_calls :: "(backend \<times> message list) list"

text \<open>
  What the handlers call but do not define: the Python runtime, langdetect, the stores, the
  model runtimes and the settings.
  \<^item> \<open>str_lower\<close> is \<open>str.lower\<close>; \<open>detect\<close> is langdetect, \<open>None\<close> when it raises
    \<open>LangDetectException\<close>;
  \<^item> \<open>memori_wrapper_set\<close>: the module global \<open>_memori_wrapper\<close> is not \<open>None\<close>;
  \<^item> \<open>new_object_id\<close> is \<open>str(ObjectId())\<close>, \<open>inserted_session_id\<close> and
    \<open>inserted_document_id\<close> the ids \<open>insert_one\<close> returns, \<open>object_id_valid\<close> whether
    \<open>ObjectId(s)\<close> accepts the string;
  \<^item> \<open>chunks_find\<close> is the query
    \<open>find({user_id, text: {$regex: pattern, $options: "i"}}).limit(limit)\<close> run on the chunk
    collection, the cursor read to its end;
  \<^item> \<open>sarvam_chat\<close> and \<open>llama_chat\<close> are \<open>SarvamClient.chat\<close> and \<open>LlamaClient.chat\<close>;
  \<^item> \<open>memori_insert\<close> tells whether the insert into Memori's database succeeds;
  \<^item> \<open>whisper_service\<close> and \<open>tts_service\<close> are \<open>get_whisper_service()\<close> and
    \<open>get_tts_service()\<close>: \<open>Inl\<close> when building the service raises, else its
    \<open>transcribe_audio\<close> (giving text and language) or \<open>synthesize_speech\<close>;
  \<^item> \<open>b64encode\<close> is \<open>base64.b64encode(b).decode('utf-8')\<close>;
  \<^item> \<open>upload_path\<close> is the path built from the upload directory, the user id, the time and
    the file name; \<open>parse_file\<close> reads the text of the file at a path.

  The inserts into the sessions, messages, documents and chunks collections are taken to
  succeed, as are Memori's \<open>attribution\<close> and \<open>set_session\<close>, which change nothing the
  handlers read.
\<close>

record env =
  str_lower :: "str \<Rightarrow> str"
  detect :: "str \<Rightarrow> str option"
  memori_wrapper_set :: bool
  new_object_id :: str
  inserted_session_id :: str
  inserted_document_id :: str
  object_id_valid :: "str \<Rightarrow> bool"
  chunks_find :: "chunk_record list \<Rightarrow> str \<Rightarrow> str \<Rightarrow> int \<Rightarrow> str + chunk_record list"
  sarvam_chat :: "message list \<Rightarrow> str + str"
  llama_chat :: "message list \<Rightarrow> str + str"
  memori_insert :: "memori_record \<Rightarrow> bool"
  whisper_service :: "str + (nat list \<Rightarrow> str + (str \<times> str))"
  tts_service :: "str + (str \<Rightarrow> str \<Rightarrow> str + nat list)"
  b64encode :: "nat list \<Rightarrow> str"
  upload_path :: "str \<Rightarrow> str \<Rightarrow> str"
  parse_file :: "str \<Rightarrow> nat list \<Rightarrow> str + str"
  MAX_CHUNK_SIZE :: int

section \<open>Retriever and ingestion (services/documents/document_store.py)\<close>

definition get_relevant_chunks ::
  "env \<Rightarrow> chunk_record list \<Rightarrow> str \<Rightarrow> str \<Rightarrow> int \<Rightarrow> str + str list" where
  "get_relevant_chunks e col user_id query limit =
     (let keywords = map (str_lower e) (filter (\<lambda>word. length word > 3) (split query)) in
      if keywords = [] then Inr []
      else
        (let pattern = join (asc ''|'') (take 5 keywords) in
         case chunks_find e col user_id pattern limit of
           Inl err \<Rightarrow> Inl err
         | Inr docs \<Rightarrow> Inr (map c_text docs)))"

record UploadFile =
  filename :: str
  content_type :: "str option"
  file_content :: "nat list"

text \<open>
  \<open>save_uploaded_file\<close>. \<open>None\<close> is a run in which \<open>chunk_text\<close> does not return. A file
  that cannot be parsed is removed again and the call raises \<open>ValueError\<close>.
\<close>

definition save_uploaded_file ::
  "env \<Rightarrow> world \<Rightarrow> str \<Rightarrow> UploadFile \<Rightarrow> (world \<times> (error + str)) option" where
  "save_uploaded_file e w user_id file =
     (let file_path = upload_path e user_id (filename file);
          w1 = w\<lparr>uploads := (uploads w)(file_path \<mapsto> file_content file)\<rparr>
      in case parse_file e file_path (file_content file) of
           Inl err \<Rightarrow>
             Some (w1\<lparr>uploads := (uploads w1)(file_path := None)\<rparr>,
                   Inl (ValueError (asc ''Failed to parse file: '' @ err)))
         | Inr parsed \<Rightarrow>
             (case chunk_text parsed (MAX_CHUNK_SIZE e) 128 of
                None \<Rightarrow> None
              | Some chunks \<Rightarrow>
                  (let document_record = \<lparr>d_user_id = user_id, d_filename = filename file,
                         d_mime_type = (case content_type file of
                                          Some t \<Rightarrow> if t = [] then asc ''application/octet-stream'' else t
                                        | None \<Rightarrow> asc ''application/octet-stream''),
                         d_original_path = file_path\<rparr>;
                       document_id = inserted_document_id e;
                       w2 = w1\<lparr>documents_col := documents_col w1 @ [(document_id, document_record)]\<rparr>;
                       chunk_records = map (\<lambda>(idx, chunk_text_content).
                           \<lparr>c_document_id = document_id, c_user_id = user_id,
                            c_text = chunk_text_content, c_chunk_index = idx\<rparr>)
                         (enumerate 0 chunks);
                       w3 = (if chunk_records \<noteq> []
                             then w2\<lparr>chunks_col := chunks_col w2 @ chunk_records\<rparr> else w2)
                   in Some (w3, Inr document_id))))"

section \<open>Model gateway (services/llm/local_llm_client.py)\<close>

definition SYSTEM_PROMPT :: str where
  "SYSTEM_PROMPT =
     asc ''You are Drishti AI, a helpful multilingual assistant supporting English and Indian languages (Hindi, Bengali, Marathi, Tamil, Telugu, Gujarati, Kannada, Malayalam, Odia, Punjabi).''
     @ nl @ nl @ asc ''Guidelines:'' @ nl
     @ asc ''- Reply in the SAME LANGUAGE as the user unless they explicitly ask you to translate'' @ nl
     @ asc ''- Keep responses concise and TTS-friendly (avoid overly long paragraphs)'' @ nl
     @ asc ''- If the user asks to translate, output ONLY the translated text without explanation'' @ nl
     @ asc ''- Be helpful, accurate, and culturally aware'' @ nl
     @ asc ''- For code or technical topics, provide clear step-by-step explanations''"

text \<open>The block "Build messages" of \<open>LocalLLMClient.chat\<close>.\<close>

definition build_messages :: "str \<Rightarrow> str \<Rightarrow> message list" where
  "build_messages user_text context =
     (let system_content = (if context \<noteq> []
                            then SYSTEM_PROMPT @ nl @ nl
                                 @ asc ''Context from uploaded documents:'' @ nl @ context
                            else SYSTEM_PROMPT)
      in [\<lparr>role = asc ''system'', content = system_content\<rparr>,
          \<lparr>role = asc ''user'', content = user_text\<rparr>])"

text \<open>
  \<open>LocalLLMClient.chat\<close>. The call to a backend is recorded in \<open>llm_calls\<close> whether or not it
  raises; an exception of the backend leaves the method.
\<close>

definition LocalLLMClient_chat ::
  "env \<Rightarrow> world \<Rightarrow> str \<Rightarrow> str \<Rightarrow> str \<Rightarrow> world \<times> (error + chat_result)" where
  "LocalLLMClient_chat e w user_text lang context =
     (let model_choice = choose_model (str_lower e) user_text lang;
          messages = build_messages user_text context
      in if model_choice = asc ''light'' then
           (case sarvam_chat e messages of
              Inl err \<Rightarrow> (w\<lparr>llm_calls := llm_calls w @ [(Sarvam, messages)]\<rparr>, Inl (Exception err))
            | Inr r \<Rightarrow> (w\<lparr>llm_calls := llm_calls w @ [(Sarvam, messages)]\<rparr>,
                        Inr \<lparr>reply = r, model_used = asc ''sarvam-1'', result_session_id = None\<rparr>))
         else
           (case llama_chat e messages of
              Inl err \<Rightarrow> (w\<lparr>llm_calls := llm_calls w @ [(Llama, messages)]\<rparr>, Inl (Exception err))
            | Inr r \<Rightarrow> (w\<lparr>llm_calls := llm_calls w @ [(Llama, messages)]\<rparr>,
                        Inr \<lparr>reply = r, model_used = asc ''llama-3.1-8b'', result_session_id = None\<rparr>)))"

text \<open>
  The two branches of \<open>LocalLLMClient.chat\<close> read as a table: the client method a backend
  stands for, and the name reported for it. They serve to state what the method does.
\<close>

definition backend_chat :: "env \<Rightarrow> backend \<Rightarrow> message list \<Rightarrow> str + str" where
  "backend_chat e b ms = (case b of Sarvam \<Rightarrow> sarvam_chat e ms | Llama \<Rightarrow> llama_chat e ms)"

definition backend_name :: "backend \<Rightarrow> str" where
  "backend_name b = (case b of Sarvam \<Rightarrow> asc ''sarvam-1'' | Llama \<Rightarrow> asc ''llama-3.1-8b'')"

definition routed :: "env \<Rightarrow> str \<Rightarrow> str \<Rightarrow> backend" where
  "routed e t l = (if choose_model (str_lower e) t l = asc ''light'' then Sarvam else Llama)"

section \<open>Conversation memory (services/memory/memori_client.py)\<close>

text \<open>
  \<open>MemoriWrapper.chat\<close>: the model is called with the text and the language only (no
  \<open>context\<close> argument, so its default, the empty string); a failed insert into Memori's
  database is caught and printed.
\<close>

definition MemoriWrapper_chat ::
  "env \<Rightarrow> world \<Rightarrow> str \<Rightarrow> str \<Rightarrow> str \<Rightarrow> str \<Rightarrow> world \<times> (error + chat_result)" where
  "MemoriWrapper_chat e w user_id sid user_text lang =
     (case LocalLLMClient_chat e w user_text lang [] of
        (w1, Inl err) \<Rightarrow> (w1, Inl err)
      | (w1, Inr result) \<Rightarrow>
          (let record = \<lparr>entity_id = user_id, process_id = asc ''drishti-ai'', session_id = sid,
                         user_message = user_text, assistant_message = reply result,
                         mem_model_used = model_used result\<rparr>;
               w2 = (if memori_insert e record
                     then w1\<lparr>memori_messages := memori_messages w1 @ [record]\<rparr> else w1)
           in (w2, Inr (result\<lparr>result_session_id := Some sid\<rparr>))))"

section \<open>Chat endpoints (api/routes_chat.py)\<close>

record TextChatRequest =
  req_user_id :: str
  req_session_id :: "str option"
  req_text :: str
  req_lang :: str

record TextChatResponse =
  tr_user_text :: str
  tr_assistant_text :: str
  tr_lang :: str
  tr_model_used :: str
  tr_session_id :: str

record AudioChatResponse =
  ar_user_text :: str
  ar_assistant_text :: str
  ar_lang :: str
  ar_model_used :: str
  ar_session_id :: str
  ar_audio_format :: str
  ar_audio_base64 :: str

text \<open>
  The block "get or create session" that both handlers contain: a missing or empty session
  id makes a session record, and the id the store returns becomes the session id.
\<close>

definition get_or_create_session ::
  "env \<Rightarrow> world \<Rightarrow> str \<Rightarrow> str option \<Rightarrow> str \<Rightarrow> world \<times> str" where
  "get_or_create_session e w user_id sid_opt user_text =
     (let session_record = \<lparr>s_user_id = user_id, s_memori_session_id = new_object_id e,
            s_title = take 50 user_text @ (if length user_text > 50 then asc ''...'' else [])\<rparr>;
          created = (w\<lparr>sessions_col := sessions_col w @ [(inserted_session_id e, session_record)]\<rparr>,
                     inserted_session_id e)
      in case sid_opt of
           None \<Rightarrow> created
         | Some sid \<Rightarrow> if sid = [] then created else (w, sid))"

text \<open>
  \<open>chat_text\<close>. After both messages are stored the session's time stamp is updated under
  the key \<open>ObjectId(session_id)\<close>, which raises \<open>InvalidId\<close> for a string that is no object
  id.
\<close>

definition chat_text ::
  "env \<Rightarrow> world \<Rightarrow> TextChatRequest \<Rightarrow> world \<times> (error + TextChatResponse)" where
  "chat_text e w request =
     (if \<not> memori_wrapper_set e
      then (w, Inl (HTTPException 500 (asc ''Memori not initialized'')))
      else
        (let lang = (if req_lang request = asc ''auto''
                     then (case detect e (req_text request) of Some l \<Rightarrow> l | None \<Rightarrow> asc ''en'')
                     else req_lang request);
             (w1, sid) = get_or_create_session e w (req_user_id request)
                           (req_session_id request) (req_text request)
         in case get_relevant_chunks e (chunks_col w1) (req_user_id request)
                   (req_text request) 5 of
              Inl err \<Rightarrow> (w1, Inl (Exception err))
            | Inr chunks \<Rightarrow>
                (let context = (if chunks \<noteq> [] then join (nl @ nl) chunks else []);
                     text_with_context =
                       (if context \<noteq> []
                        then req_text request @ nl @ nl @ asc ''[Context from documents: ''
                             @ context @ asc '']''
                        else req_text request)
                 in case MemoriWrapper_chat e w1 (req_user_id request) sid
                           text_with_context lang of
                      (w2, Inl err) \<Rightarrow> (w2, Inl err)
                    | (w2, Inr result) \<Rightarrow>
                        (let user_msg = \<lparr>m_session_id = sid, m_sender = asc ''user'',
                               m_text = req_text request, m_lang = lang, m_model_used = None\<rparr>;
                             assistant_msg = \<lparr>m_session_id = sid, m_sender = asc ''assistant'',
                               m_text = reply result, m_lang = lang,
                               m_model_used = Some (model_used result)\<rparr>;
                             w3 = w2\<lparr>messages_col := messages_col w2 @ [user_msg, assistant_msg]\<rparr>
                         in if \<not> object_id_valid e sid then (w3, Inl (InvalidId sid))
                            else (w3, Inr \<lparr>tr_user_text = req_text request,
                                           tr_assistant_text = reply result, tr_lang = lang,
                                           tr_model_used = model_used result,
                                           tr_session_id = sid\<rparr>)))))"

text \<open>
  \<open>chat_audio\<close>, in two parts. \<open>chat_audio_generate\<close> is the handler up to
  \<open>assistant_text = result["reply"]\<close>: transcription, session, retrieval and generation; it
  gives the transcribed text, the language, the session id and the result. \<open>chat_audio\<close>
  goes on with synthesis, the two messages and the session update.
\<close>

definition chat_audio_generate ::
  "env \<Rightarrow> world \<Rightarrow> str \<Rightarrow> str option \<Rightarrow> nat list
     \<Rightarrow> world \<times> (error + str \<times> str \<times> str \<times> chat_result)" where
  "chat_audio_generate e w user_id sid_opt audio_bytes =
     (if \<not> memori_wrapper_set e
      then (w, Inl (HTTPException 500 (asc ''Memori not initialized'')))
      else case whisper_service e of
        Inl err \<Rightarrow> (w, Inl (Exception err))
      | Inr transcribe_audio \<Rightarrow>
        (case transcribe_audio audio_bytes of
           Inl err \<Rightarrow> (w, Inl (HTTPException 400 (asc ''STT error: '' @ err)))
         | Inr (user_text, lang) \<Rightarrow>
           (let (w1, sid) = get_or_create_session e w user_id sid_opt user_text
            in case get_relevant_chunks e (chunks_col w1) user_id user_text 5 of
                 Inl err \<Rightarrow> (w1, Inl (Exception err))
               | Inr chunks \<Rightarrow>
                   (let context = (if chunks \<noteq> [] then join (nl @ nl) chunks else []);
                        text_with_context =
                          (if context \<noteq> []
                           then user_text @ nl @ nl @ asc ''[Context: '' @ context @ asc '']''
                           else user_text)
                    in case MemoriWrapper_chat e w1 user_id sid text_with_context lang of
                         (w2, Inl err) \<Rightarrow> (w2, Inl err)
                       | (w2, Inr result) \<Rightarrow> (w2, Inr (user_text, lang, sid, result))))))"

definition chat_audio ::
  "env \<Rightarrow> world \<Rightarrow> str \<Rightarrow> str option \<Rightarrow> nat list \<Rightarrow> world \<times> (error + AudioChatResponse)" where
  "chat_audio e w user_id sid_opt audio_bytes =
     (case chat_audio_generate e w user_id sid_opt audio_bytes of
        (w2, Inl err) \<Rightarrow> (w2, Inl err)
      | (w2, Inr (user_text, lang, sid, result)) \<Rightarrow>
          (let assistant_text = reply result in
           case tts_service e of
             Inl err \<Rightarrow> (w2, Inl (Exception err))
           | Inr synthesize_speech \<Rightarrow>
             (case synthesize_speech assistant_text lang of
                Inl err \<Rightarrow> (w2, Inl (HTTPException 500 (asc ''TTS error: '' @ err)))
              | Inr audio \<Rightarrow>
                  (let audio_base64 = b64encode e audio;
                       user_msg = \<lparr>m_session_id = sid, m_sender = asc ''user'',
                          m_text = user_text, m_lang = lang, m_model_used = None\<rparr>;
                       assistant_msg = \<lparr>m_session_id = sid, m_sender = asc ''assistant'',
                          m_text = assistant_text, m_lang = lang,
                          m_model_used = Some (model_used result)\<rparr>;
                       w3 = w2\<lparr>messages_col := messages_col w2 @ [user_msg, assistant_msg]\<rparr>
                   in if \<not> object_id_valid e sid then (w3, Inl (InvalidId sid))
                      else (w3, Inr \<lparr>ar_user_text = user_text,
                                     ar_assistant_text = assistant_text, ar_lang = lang,
                                     ar_model_used = model_used result, ar_session_id = sid,
                                     ar_audio_format = asc ''wav'',
                                     ar_audio_base64 = audio_base64\<rparr>)))))"

text \<open>
  One request served by the core: an upload or a chat turn, in any environment. The store
  gives a new document an id that no document of the collection has.
\<close>

inductive core_step :: "world \<Rightarrow> world \<Rightarrow> bool" where
  upload: "save_uploaded_file e w user_id file = Some (w', r) \<Longrightarrow>
           inserted_document_id e \<notin> fst ` set (documents_col w) \<Longrightarrow> core_step w w'"
| text_turn: "chat_text e w request = (w', r) \<Longrightarrow> core_step w w'"
| audio_turn: "chat_audio e w user_id sid_opt audio_bytes = (w', r) \<Longrightarrow> core_step w w'"

section \<open>The chunk store's query\<close>

text \<open>
  The store's side of \<open>chunks_find\<close> when it answers. The filter keeps the documents of the
  user whose text the regular expression matches somewhere, case-insensitively;
  \<open>limit(n)\<close> keeps the first \<open>|n|\<close> of them, and all of them for \<open>n = 0\<close>.

  The regular expressions are modelled on a fragment: alternatives separated by \<open>|\<close>, each
  a sequence of literal characters and of \<open>.\<close>, which matches any character but a line
  feed. A pattern with any other metacharacter is reported as outside the fragment. Letters
  are compared without case on ASCII.
\<close>

datatype atom = Lit nat | AnyChar

text \<open>The metacharacters outside the fragment: backslash, \<open>^ $ * + ? ( ) [ ] { }\<close>.\<close>

definition regex_meta :: "nat list" where
  "regex_meta = [92, 94, 36, 42, 43, 63, 40, 41, 91, 93, 123, 125]"

fun split_on :: "nat \<Rightarrow> str \<Rightarrow> str list" where
  "split_on sep [] = [[]]"
| "split_on sep (c # cs) =
     (if c = sep then [] # split_on sep cs
      else (case split_on sep cs of [] \<Rightarrow> [[c]] | x # xs \<Rightarrow> (c # x) # xs))"

definition regex_compile :: "str \<Rightarrow> str + atom list list" where
  "regex_compile pattern =
     (if list_ex (\<lambda>c. c \<in> set regex_meta) pattern
      then Inl (asc ''pattern outside the modelled fragment'')
      else Inr (map (map (\<lambda>c. if c = 46 then AnyChar else Lit c)) (split_on 124 pattern)))"

fun atom_matches :: "atom \<Rightarrow> nat \<Rightarrow> bool" where
  "atom_matches (Lit k) c = (ascii_lower_cp k = ascii_lower_cp c)"
| "atom_matches AnyChar c = (c \<noteq> 10)"

fun matches_at :: "atom list \<Rightarrow> str \<Rightarrow> bool" where
  "matches_at [] s = True"
| "matches_at (a # as) [] = False"
| "matches_at (a # as) (c # cs) = (atom_matches a c \<and> matches_at as cs)"

fun matches_somewhere :: "atom list \<Rightarrow> str \<Rightarrow> bool" where
  "matches_somewhere as [] = (as = [])"
| "matches_somewhere as (c # cs) = (matches_at as (c # cs) \<or> matches_somewhere as cs)"

definition regex_search :: "atom list list \<Rightarrow> str \<Rightarrow> bool" where
  "regex_search alternatives s = list_ex (\<lambda>as. matches_somewhere as s) alternatives"

definition cursor_limit :: "int \<Rightarrow> 'a list \<Rightarrow> 'a list" where
  "cursor_limit limit xs = (if limit = 0 then xs else take (nat \<bar>limit\<bar>) xs)"

definition mongo_find :: "chunk_record list \<Rightarrow> str \<Rightarrow> str \<Rightarrow> int \<Rightarrow> str + chunk_record list" where
  "mongo_find col user_id pattern limit =
     (case regex_compile pattern of
        Inl err \<Rightarrow> Inl err
      | Inr re \<Rightarrow>
          Inr (cursor_limit limit
                 (filter (\<lambda>doc. c_user_id doc = user_id \<and> regex_search re (c_text doc)) col)))"

section \<open>Sample environment and inputs\<close>

text \<open>
  A concrete environment in which every collaborator answers: ASCII lower-casing, a
  detector that recognises English, the chunk store of the previous section, and model,
  speech and parsing services that return fixed values.
\<close>

definition sample_env :: env where
  "sample_env =
     \<lparr>str_lower = ascii_lower,
      detect = (\<lambda>t. Some (asc ''en'')),
      memori_wrapper_set = True,
      new_object_id = asc ''65a1b2c3d4e5f60718293a4b'',
      inserted_session_id = asc ''65a1b2c3d4e5f60718293a4c'',
      inserted_document_id = asc ''65a1b2c3d4e5f60718293a4d'',
      object_id_valid = (\<lambda>s. length s = 24),
      chunks_find = mongo_find,
      sarvam_chat = (\<lambda>ms. Inr (asc ''light reply'')),
      llama_chat = (\<lambda>ms. Inr (asc ''heavy reply'')),
      memori_insert = (\<lambda>r. True),
      whisper_service = Inr (\<lambda>audio. Inr (asc ''hello there'', asc ''en'')),
      tts_service = Inr (\<lambda>t l. Inr [82, 73, 70, 70]),
      b64encode = (\<lambda>b. asc ''UklGRg==''),
      upload_path = (\<lambda>user_id name. asc ''uploads/'' @ user_id @ asc ''_'' @ name),
      parse_file = (\<lambda>path bytes. Inr bytes),
      MAX_CHUNK_SIZE = 1024\<rparr>"

definition empty_world :: world where
  "empty_world =
     \<lparr>sessions_col = [], messages_col = [], memori_messages = [], documents_col = [],
      chunks_col = [], uploads = Map.empty, llm_calls = []\<rparr>"

definition sample_request :: TextChatRequest where
  "sample_request =
     \<lparr>req_user_id = asc ''u1'', req_session_id = Some (asc ''65a1b2c3d4e5f60718293a4e''),
      req_text = asc ''namaste dost'', req_lang = asc ''hi''\<rparr>"

definition sample_chunk :: "str \<Rightarrow> chunk_record" where
  "sample_chunk s =
     \<lparr>c_document_id = asc ''65a1b2c3d4e5f60718293a4f'', c_user_id = asc ''u1'', c_text = s,
      c_chunk_index = 0\<rparr>"

definition sample_file :: UploadFile where
  "sample_file =
     \<lparr>filename = asc ''notes.txt'', content_type = Some (asc ''text/plain''),
      file_content = asc ''Short text''\<rparr>"

text \<open>A store that holds one chunk of user \<open>u1\<close>.\<close>

definition notes_world :: world where
  "notes_world =
     empty_world\<lparr>chunks_col := [sample_chunk (asc ''namaste: a detailed greeting guide'')]\<rparr>"

definition twenty_letters :: str where
  "twenty_letters = asc ''aaaaaaaaaaaaaaaaaaaa''"

text \<open>
  Environments in which one collaborator fails: speech synthesis, the chunk store, the heavy
  backend, language detection.
\<close>

definition tts_down_env :: env where
  "tts_down_env = sample_env\<lparr>tts_service := Inr (\<lambda>t l. Inl (asc ''synthesis failed''))\<rparr>"

definition store_down_env :: env where
  "store_down_env =
     sample_env\<lparr>chunks_find := (\<lambda>col u p n. Inl (asc ''connection refused''))\<rparr>"

definition llama_down_env :: env where
  "llama_down_env =
     sample_env\<lparr>llama_chat := (\<lambda>ms. Inl (asc ''Llama client error: timed out''))\<rparr>"

definition detect_fail_env :: env where
  "detect_fail_env = sample_env\<lparr>detect := (\<lambda>t. None)\<rparr>"

definition hello_request :: TextChatRequest where
  "hello_request =
     \<lparr>req_user_id = asc ''u1'', req_session_id = None, req_text = asc ''Hello'',
      req_lang = asc ''en''\<rparr>"

definition auto_request :: TextChatRequest where
  "auto_request =
     \<lparr>req_user_id = asc ''u1'', req_session_id = None, req_text = asc ''12345'',
      req_lang = asc ''auto''\<rparr>"

text \<open>A file of 1025 letters, and an environment whose store hands out another document id.\<close>

definition long_file :: UploadFile where
  "long_file =
     \<lparr>filename = asc ''long.txt'', content_type = Some (asc ''text/plain''),
      file_content = replicate 1025 97\<rparr>"

definition later_env :: env where
  "later_env = sample_env\<lparr>inserted_document_id := asc ''65a1b2c3d4e5f60718293a50''\<rparr>"

section \<open>Facts about strings\<close>

lemma starts_with_iff: "starts_with k t \<longleftrightarrow> (\<exists>s. t = k @ s)"
  by (induction k t rule: starts_with.induct) auto

lemma contains_iff: "contains k t \<longleftrightarrow> (\<exists>p s. t = p @ k @ s)"
proof (induction t)
  case Nil
  then show ?case by auto
next
  case (Cons c cs)
  show ?case
  proof
    assume "contains k (c # cs)"
    then consider "starts_with k (c # cs)" | "contains k cs" by auto
    then show "\<exists>p s. c # cs = p @ k @ s"
    proof cases
      case 1
      then obtain s where "c # cs = k @ s" by (auto simp: starts_with_iff)
      then have "c # cs = [] @ k @ s" by simp
      then show ?thesis by blast
    next
      case 2
      then obtain p s where "cs = p @ k @ s" using Cons.IH by auto
      then have "c # cs = (c # p) @ k @ s" by simp
      then show ?thesis by blast
    qed
  next
    assume "\<exists>p s. c # cs = p @ k @ s"
    then obtain p s where ps: "c # cs = p @ k @ s" by auto
    show "contains k (c # cs)"
    proof (cases p)
      case Nil
      with ps have "starts_with k (c # cs)" by (auto simp: starts_with_iff)
      then show ?thesis by simp
    next
      case (Cons a p')
      with ps have "cs = p' @ k @ s" by simp
      then have "contains k cs" using Cons.IH by auto
      then show ?thesis by simp
    qed
  qed
qed

lemma any_keyword_in_iff: "any_keyword_in ks t \<longleftrightarrow> (\<exists>k \<in> set ks. contains k t)"
  by (induction ks) auto

text \<open>The equations that evaluate the string functions on a literal.\<close>

lemmas string_defs = asc_def nl_def ascii_lower_def ascii_lower_cp_def is_space_def split_def
  strip_def slice_def adjust_index_def rfind_def

section \<open>Router\<close>

lemma INDIC_LANGS_card: "card INDIC_LANGS = 10"
  by (simp add: INDIC_LANGS_def asc_def)

text \<open>
  C4. \<open>choose_model\<close> applies four rules, the first match winning: more than 300 code points
  gives heavy; otherwise a heavy keyword occurring in the lower-cased text gives heavy;
  otherwise a language code among the ten Indic codes gives light; otherwise heavy. The four
  examples of the unit tests come out as heavy, heavy, light, heavy.
\<close>

theorem choose_model_rules:
  "choose_model lower t l =
     (if length t > 300 then asc ''heavy''
      else if (\<exists>k \<in> set HEAVY_KEYWORDS. \<exists>p s. lower t = p @ k @ s) then asc ''heavy''
      else if l \<in> INDIC_LANGS then asc ''light''
      else asc ''heavy'')
   \<and> card INDIC_LANGS = 10
   \<and> choose_model ascii_lower (replicate 400 97) (asc ''en'') = asc ''heavy''
   \<and> choose_model ascii_lower (asc ''Explain this step by step'') (asc ''en'') = asc ''heavy''
   \<and> choose_model ascii_lower namaste (asc ''hi'') = asc ''light''
   \<and> choose_model ascii_lower (asc ''Hello'') (asc ''en'') = asc ''heavy''"
proof -
  have rules: "choose_model lower t l =
     (if length t > 300 then asc ''heavy''
      else if (\<exists>k \<in> set HEAVY_KEYWORDS. \<exists>p s. lower t = p @ k @ s) then asc ''heavy''
      else if l \<in> INDIC_LANGS then asc ''light''
      else asc ''heavy'')"
    by (simp add: choose_model_def Let_def any_keyword_in_iff contains_iff)
  have e1: "choose_model ascii_lower (replicate 400 97) (asc ''en'') = asc ''heavy''"
    by (simp add: choose_model_def Let_def)
  have e2: "choose_model ascii_lower (asc ''Explain this step by step'') (asc ''en'')
              = asc ''heavy''"
    by (simp add: choose_model_def Let_def HEAVY_KEYWORDS_def asc_def ascii_lower_def
        ascii_lower_cp_def)
  have e3: "choose_model ascii_lower namaste (asc ''hi'') = asc ''light''"
    by (simp add: choose_model_def Let_def HEAVY_KEYWORDS_def asc_def ascii_lower_def
        ascii_lower_cp_def namaste_def INDIC_LANGS_def)
  have e4: "choose_model ascii_lower (asc ''Hello'') (asc ''en'') = asc ''heavy''"
    by (simp add: choose_model_def Let_def HEAVY_KEYWORDS_def asc_def ascii_lower_def
        ascii_lower_cp_def INDIC_LANGS_def)
  from rules INDIC_LANGS_card e1 e2 e3 e4 show ?thesis by blast
qed

theorem choose_model_rules_witness:
  "choose_model ascii_lower (asc ''Write code for this'') (asc ''en'') = asc ''heavy''
   \<and> (\<exists>k \<in> set HEAVY_KEYWORDS. \<exists>p s.
         ascii_lower (asc ''Write code for this'') = p @ k @ s)"
proof -
  have c: "contains (asc ''code'') (ascii_lower (asc ''Write code for this''))"
    by (simp add: asc_def ascii_lower_def ascii_lower_cp_def)
  have m: "asc ''code'' \<in> set HEAVY_KEYWORDS"
    by (simp add: HEAVY_KEYWORDS_def)
  from c m have ex: "\<exists>k \<in> set HEAVY_KEYWORDS. \<exists>p s.
         ascii_lower (asc ''Write code for this'') = p @ k @ s"
    unfolding contains_iff by blast
  have "choose_model ascii_lower (asc ''Write code for this'') (asc ''en'') =
     (if length (asc ''Write code for this'') > 300 then asc ''heavy''
      else if (\<exists>k \<in> set HEAVY_KEYWORDS. \<exists>p s.
                 ascii_lower (asc ''Write code for this'') = p @ k @ s) then asc ''heavy''
      else if asc ''en'' \<in> INDIC_LANGS then asc ''light''
      else asc ''heavy'')"
    using choose_model_rules [of ascii_lower "asc ''Write code for this''" "asc ''en''"]
    by (rule conjunct1)
  with ex have "choose_model ascii_lower (asc ''Write code for this'') (asc ''en'')
                  = asc ''heavy''"
    by simp
  with ex show ?thesis by blast
qed

section \<open>Chunker\<close>

lemma chunk_loop_done:
  "\<not> start < int (length s) \<Longrightarrow> chunk_loop s chunk_size overlap start chunks = Some chunks"
  by (subst chunk_loop.simps) (simp add: Let_def)

lemma chunk_loop_step:
  "start < int (length s) \<Longrightarrow>
   chunk_loop s chunk_size overlap start chunks =
   chunk_loop s chunk_size overlap
     (if next_end s chunk_size start < int (length s)
      then next_end s chunk_size start - overlap else int (length s))
     (if strip (slice s start (next_end s chunk_size start)) \<noteq> []
      then chunks @ [strip (slice s start (next_end s chunk_size start))] else chunks)"
  by (subst chunk_loop.simps) (simp add: Let_def next_end_def)

text \<open>
  A window either ends at \<open>start + chunk_size\<close> or just after a boundary found beyond the
  middle of the window, so at least \<open>chunk_size div 2 + 3\<close> further on.
\<close>

lemma find_break_lower:
  "\<forall>c \<in> set bs. length c = 2 \<Longrightarrow>
   find_break bs s start e chunk_size = e
   \<or> start + chunk_size div 2 + 3 \<le> find_break bs s start e chunk_size"
  by (induction bs) (auto simp: Let_def)

lemma next_end_lower:
  "next_end s chunk_size start = start + chunk_size
   \<or> start + chunk_size div 2 + 3 \<le> next_end s chunk_size start"
  using find_break_lower [of boundary_chars s start "start + chunk_size" chunk_size]
  by (auto simp: next_end_def boundary_chars_def asc_def nl_def)

text \<open>
  The loop returns whenever the overlap is smaller than both possible advances of the
  window; the defaults, chunk size 1024 and overlap 128, are such a case. The measure is
  the distance from \<open>start\<close> to the end of the text.
\<close>

lemma chunk_loop_terminates:
  assumes "overlap < chunk_size" "overlap \<le> chunk_size div 2 + 2"
  shows "\<exists>r. chunk_loop s chunk_size overlap start chunks = Some r"
proof (induction "nat (int (length s) - start)" arbitrary: start chunks rule: less_induct)
  case less
  show ?case
  proof (cases "start < int (length s)")
    case False
    then show ?thesis by (simp add: chunk_loop_done)
  next
    case True
    define e where "e = next_end s chunk_size start"
    define start' where "start' = (if e < int (length s) then e - overlap else int (length s))"
    define chunks' where "chunks' =
      (if strip (slice s start e) \<noteq> [] then chunks @ [strip (slice s start e)] else chunks)"
    have step: "chunk_loop s chunk_size overlap start chunks
                  = chunk_loop s chunk_size overlap start' chunks'"
      using chunk_loop_step [OF True] by (simp add: e_def start'_def chunks'_def)
    have adv: "start < start'"
      using next_end_lower [of s chunk_size start] assms True
      by (auto simp: start'_def e_def)
    have "nat (int (length s) - start') < nat (int (length s) - start)"
      using adv True by auto
    from less(1) [OF this] step show ?thesis by simp
  qed
qed

lemma chunk_text_terminates:
  "overlap < chunk_size \<Longrightarrow> overlap \<le> chunk_size div 2 + 2 \<Longrightarrow>
     \<exists>r. chunk_text s chunk_size overlap = Some r"
  by (simp add: chunk_text_def chunk_loop_terminates)

text \<open>The two examples of the parser's unit tests.\<close>

lemma chunk_text_empty: "chunk_text [] chunk_size overlap = Some []"
  by (simp add: chunk_text_def)

lemma chunk_text_single: "chunk_text (asc ''Short text'') 100 10 = Some [asc ''Short text'']"
  by (simp add: chunk_text_def chunk_loop_step chunk_loop_done next_end_def string_defs)

text \<open>
  With \<open>chunk_size = overlap = 10\<close> on a text of twenty letters the window never moves:
  \<open>end\<close> is \<open>10\<close>, below the length, so the next \<open>start\<close> is \<open>end - overlap = 0\<close> again.
\<close>

lemma chunk_loop_stuck:
  assumes run: "chunk_loop t cs ov start chunks = Some r"
  shows "\<not> (t = twenty_letters \<and> cs = 10 \<and> ov = 10 \<and> start = 0)"
proof (rule chunk_loop.raw_induct [where P = "\<lambda>t cs ov start chunks r.
          \<not> (t = twenty_letters \<and> cs = 10 \<and> ov = 10 \<and> start = 0)", OF _ run], goal_cases)
  case (1 f t cs ov start chunks r)
  show ?case
  proof
    assume a: "t = twenty_letters \<and> cs = 10 \<and> ov = 10 \<and> start = 0"
    then have eqs: "t = twenty_letters" "cs = 10" "ov = 10" "start = 0" by auto
    have fb: "find_break boundary_chars twenty_letters 0 10 10 = 10"
      by (simp add: twenty_letters_def boundary_chars_def string_defs Let_def)
    have len: "int (length twenty_letters) = 20" by (simp add: twenty_letters_def asc_def)
    from 1(2) have "\<exists>c. f t cs ov 0 c = Some r"
      unfolding eqs Let_def len by (simp add: fb) blast
    then obtain c where "f t cs ov 0 c = Some r" ..
    from 1(1) [OF this] a show False by simp
  qed
qed

text \<open>
  C5. \<open>chunk_text\<close> is not total for every \<open>chunkSize > 0\<close> and \<open>overlap >= 0\<close>: on twenty
  letters with chunk size 10 and overlap 10 the loop never returns.
\<close>

theorem chunk_text_overlap_never_returns:
  "chunk_text twenty_letters 10 10 = None"
proof (cases "chunk_text twenty_letters 10 10")
  case None
  then show ?thesis .
next
  case (Some r)
  then have "chunk_loop twenty_letters 10 10 0 [] = Some r"
    by (simp add: chunk_text_def twenty_letters_def asc_def)
  from chunk_loop_stuck [OF this] show ?thesis by simp
qed

section \<open>Gateway and memory\<close>

lemma LocalLLMClient_chat_eq:
  "LocalLLMClient_chat e w t l c =
     (w\<lparr>llm_calls := llm_calls w @ [(routed e t l, build_messages t c)]\<rparr>,
      case backend_chat e (routed e t l) (build_messages t c) of
        Inl err \<Rightarrow> Inl (Exception err)
      | Inr r \<Rightarrow> Inr \<lparr>reply = r, model_used = backend_name (routed e t l),
                     result_session_id = None\<rparr>)"
  by (simp add: LocalLLMClient_chat_def Let_def backend_chat_def backend_name_def routed_def
      split: sum.splits)

lemma MemoriWrapper_chat_eq:
  "MemoriWrapper_chat e w u sid t l =
     (case backend_chat e (routed e t l) (build_messages t []) of
        Inl err \<Rightarrow> (w\<lparr>llm_calls := llm_calls w @ [(routed e t l, build_messages t [])]\<rparr>,
                    Inl (Exception err))
      | Inr r \<Rightarrow>
          (let record = \<lparr>entity_id = u, process_id = asc ''drishti-ai'', session_id = sid,
                 user_message = t, assistant_message = r,
                 mem_model_used = backend_name (routed e t l)\<rparr>;
               w1 = w\<lparr>llm_calls := llm_calls w @ [(routed e t l, build_messages t [])]\<rparr>
           in (if memori_insert e record
               then w1\<lparr>memori_messages := memori_messages w1 @ [record]\<rparr> else w1,
               Inr \<lparr>reply = r, model_used = backend_name (routed e t l),
                    result_session_id = Some sid\<rparr>)))"
  by (simp add: MemoriWrapper_chat_def LocalLLMClient_chat_eq Let_def split: sum.splits)

lemma get_or_create_session_cols:
  "get_or_create_session e w u so t = (w1, sid) \<Longrightarrow>
     chunks_col w1 = chunks_col w \<and> messages_col w1 = messages_col w
     \<and> memori_messages w1 = memori_messages w \<and> llm_calls w1 = llm_calls w
     \<and> documents_col w1 = documents_col w \<and> uploads w1 = uploads w"
  by (auto simp: get_or_create_session_def Let_def split: option.splits if_splits)

text \<open>The equations that evaluate a turn in the sample environment.\<close>

lemmas eval_defs = chat_text_def chat_audio_def chat_audio_generate_def
  get_or_create_session_def get_relevant_chunks_def MemoriWrapper_chat_eq routed_def
  choose_model_def HEAVY_KEYWORDS_def INDIC_LANGS_def mongo_find_def regex_compile_def
  regex_meta_def regex_search_def cursor_limit_def backend_chat_def backend_name_def
  sample_env_def empty_world_def sample_request_def sample_chunk_def notes_world_def
  Let_def string_defs

section \<open>Retriever\<close>

text \<open>A query without a word of more than three characters never reaches the store.\<close>

lemma get_relevant_chunks_no_keywords:
  "filter (\<lambda>word. length word > 3) (split query) = [] \<Longrightarrow>
     get_relevant_chunks e col user_id query limit = Inr []"
  by (simp add: get_relevant_chunks_def)

text \<open>
  Against the store of this file the result is the text of documents of the store that
  belong to the user, and a positive limit bounds their number.
\<close>

lemma get_relevant_chunks_owner:
  assumes "chunks_find e = mongo_find"
      and "get_relevant_chunks e col user_id query limit = Inr ts"
  shows "\<forall>t \<in> set ts. \<exists>doc \<in> set col. c_user_id doc = user_id \<and> c_text doc = t"
proof
  fix t assume t: "t \<in> set ts"
  have sub: "set (cursor_limit limit xs) \<subseteq> set xs" for xs :: "chunk_record list"
    by (auto simp: cursor_limit_def dest: in_set_takeD)
  from assms consider
    (found) re where "ts = map c_text (cursor_limit limit
           (filter (\<lambda>doc. c_user_id doc = user_id \<and> regex_search re (c_text doc)) col))"
    | (none) "ts = []"
    by (auto simp: get_relevant_chunks_def mongo_find_def Let_def split: if_splits sum.splits)
  then show "\<exists>doc \<in> set col. c_user_id doc = user_id \<and> c_text doc = t"
  proof cases
    case found
    with t obtain doc where
      d: "doc \<in> set (cursor_limit limit
            (filter (\<lambda>doc. c_user_id doc = user_id \<and> regex_search re (c_text doc)) col))"
      and dt: "c_text doc = t"
      by auto
    from d sub have "doc \<in> set (filter (\<lambda>doc. c_user_id doc = user_id
        \<and> regex_search re (c_text doc)) col)"
      by blast
    with dt show ?thesis by auto
  next
    case none
    with t show ?thesis by simp
  qed
qed

lemma get_relevant_chunks_limit:
  assumes "chunks_find e = mongo_find"
      and "get_relevant_chunks e col user_id query limit = Inr ts"
      and "0 < limit"
  shows "int (length ts) \<le> limit"
  using assms
  by (auto simp: get_relevant_chunks_def mongo_find_def cursor_limit_def Let_def
      split: if_splits sum.splits)

text \<open>
  C6. The keywords are not matched as plain substrings: they are joined into a regular
  expression that the store interprets. For the query \<open>wait....\<close> the only keyword is
  \<open>wait....\<close>, its dots match any four characters, and the chunk \<open>waiting room\<close> is
  returned although it does not contain the keyword.
\<close>

theorem get_relevant_chunks_regex_match:
  "get_relevant_chunks sample_env [sample_chunk (asc ''waiting room'')] (asc ''u1'')
       (asc ''wait....'') 5
     = Inr [asc ''waiting room'']
   \<and> map (str_lower sample_env) (filter (\<lambda>word. length word > 3) (split (asc ''wait....'')))
       = [asc ''wait....'']
   \<and> \<not> contains (ascii_lower (asc ''wait....'')) (ascii_lower (asc ''waiting room''))"
  by (simp add: eval_defs)

section \<open>The gateway picks the routed backend\<close>

text \<open>
  C8. \<open>LocalLLMClient.chat\<close> calls exactly one backend, the one \<open>choose_model\<close> names
  (Sarvam for light, Llama otherwise), reports that backend's name, and turns its failure
  into the error of the call, with no second call. A text chat turn calls no backend or
  exactly one, chosen that way for the text it routes; the response names that backend, and
  its failure is the error of the turn.
\<close>

theorem backend_is_router_choice:
  "(LocalLLMClient_chat e w t l c = (w', res) \<longrightarrow>
      (let b = (if choose_model (str_lower e) t l = asc ''light'' then Sarvam else Llama) in
       llm_calls w' = llm_calls w @ [(b, build_messages t c)]
       \<and> res = (case backend_chat e b (build_messages t c) of
                  Inl err \<Rightarrow> Inl (Exception err)
                | Inr r \<Rightarrow> Inr \<lparr>reply = r, model_used = backend_name b,
                               result_session_id = None\<rparr>)))
   \<and> (chat_text e w request = (w2, res2) \<longrightarrow>
        llm_calls w2 = llm_calls w
        \<or> (\<exists>t l. let b = (if choose_model (str_lower e) t l = asc ''light''
                             then Sarvam else Llama) in
              llm_calls w2 = llm_calls w @ [(b, build_messages t [])]
              \<and> (\<forall>resp. res2 = Inr resp \<longrightarrow> tr_model_used resp = backend_name b)
              \<and> (\<forall>err. backend_chat e b (build_messages t []) = Inl err
                      \<longrightarrow> res2 = Inl (Exception err))))"
proof (intro conjI impI)
  assume "LocalLLMClient_chat e w t l c = (w', res)"
  then show "let b = (if choose_model (str_lower e) t l = asc ''light'' then Sarvam else Llama) in
       llm_calls w' = llm_calls w @ [(b, build_messages t c)]
       \<and> res = (case backend_chat e b (build_messages t c) of
                  Inl err \<Rightarrow> Inl (Exception err)
                | Inr r \<Rightarrow> Inr \<lparr>reply = r, model_used = backend_name b,
                               result_session_id = None\<rparr>)"
    by (auto simp: LocalLLMClient_chat_eq routed_def Let_def cong: sum.case_cong)
next
  assume run: "chat_text e w request = (w2, res2)"
  obtain w1 sid where s: "get_or_create_session e w (req_user_id request)
      (req_session_id request) (req_text request) = (w1, sid)"
    by (cases "get_or_create_session e w (req_user_id request)
      (req_session_id request) (req_text request)")
  note cols = get_or_create_session_cols [OF s]
  show "llm_calls w2 = llm_calls w
        \<or> (\<exists>t l. let b = (if choose_model (str_lower e) t l = asc ''light''
                             then Sarvam else Llama) in
              llm_calls w2 = llm_calls w @ [(b, build_messages t [])]
              \<and> (\<forall>resp. res2 = Inr resp \<longrightarrow> tr_model_used resp = backend_name b)
              \<and> (\<forall>err. backend_chat e b (build_messages t []) = Inl err
                      \<longrightarrow> res2 = Inl (Exception err)))"
  proof (cases "memori_wrapper_set e")
    case False
    with run show ?thesis by (simp add: chat_text_def)
  next
    case True
    show ?thesis
    proof (cases "get_relevant_chunks e (chunks_col w1) (req_user_id request) (req_text request) 5")
      case (Inl err)
      with run True cols show ?thesis by (auto simp: chat_text_def s)
    next
      case (Inr chunks)
      define l where "l = (if req_lang request = asc ''auto''
                     then (case detect e (req_text request) of Some l \<Rightarrow> l | None \<Rightarrow> asc ''en'')
                     else req_lang request)"
      define t where "t = (if (if chunks \<noteq> [] then join (nl @ nl) chunks else []) \<noteq> []
                        then req_text request @ nl @ nl @ asc ''[Context from documents: ''
                             @ (if chunks \<noteq> [] then join (nl @ nl) chunks else []) @ asc '']''
                        else req_text request)"
      define finish where "finish = (\<lambda>(w2 :: world) (result :: chat_result).
          if \<not> object_id_valid e sid
          then (w2\<lparr>messages_col := messages_col w2 @
                   [\<lparr>m_session_id = sid, m_sender = asc ''user'', m_text = req_text request,
                     m_lang = l, m_model_used = None\<rparr>,
                    \<lparr>m_session_id = sid, m_sender = asc ''assistant'', m_text = reply result,
                     m_lang = l, m_model_used = Some (model_used result)\<rparr>]\<rparr>,
                Inl (InvalidId sid))
          else (w2\<lparr>messages_col := messages_col w2 @
                   [\<lparr>m_session_id = sid, m_sender = asc ''user'', m_text = req_text request,
                     m_lang = l, m_model_used = None\<rparr>,
                    \<lparr>m_session_id = sid, m_sender = asc ''assistant'', m_text = reply result,
                     m_lang = l, m_model_used = Some (model_used result)\<rparr>]\<rparr>,
                Inr \<lparr>tr_user_text = req_text request, tr_assistant_text = reply result,
                     tr_lang = l, tr_model_used = model_used result, tr_session_id = sid\<rparr>))"
      have ct: "chat_text e w request =
          (case MemoriWrapper_chat e w1 (req_user_id request) sid t l of
             (w2, Inl err) \<Rightarrow> (w2, Inl err)
           | (w2, Inr result) \<Rightarrow> finish w2 result)"
        unfolding chat_text_def s l_def t_def finish_def Let_def using True Inr
        by simp
      from run cols have
        "llm_calls w2 = llm_calls w @ [(routed e t l, build_messages t [])]
          \<and> (\<forall>resp. res2 = Inr resp \<longrightarrow> tr_model_used resp = backend_name (routed e t l))
          \<and> (\<forall>err. backend_chat e (routed e t l) (build_messages t []) = Inl err
                      \<longrightarrow> res2 = Inl (Exception err))"
        unfolding ct MemoriWrapper_chat_eq
        by (auto simp: Let_def finish_def split: if_splits sum.splits)
      then show ?thesis unfolding routed_def Let_def by blast
    qed
  qed
qed

theorem backend_is_router_choice_witness:
  "LocalLLMClient_chat sample_env empty_world namaste (asc ''hi'') []
     = (empty_world\<lparr>llm_calls := [(Sarvam, build_messages namaste [])]\<rparr>,
        Inr \<lparr>reply = asc ''light reply'', model_used = asc ''sarvam-1'',
             result_session_id = None\<rparr>)
   \<and> choose_model (str_lower sample_env) namaste (asc ''hi'') = asc ''light''
   \<and> LocalLLMClient_chat llama_down_env empty_world (asc ''Hello'') (asc ''en'') []
     = (empty_world\<lparr>llm_calls := [(Llama, build_messages (asc ''Hello'') [])]\<rparr>,
        Inl (Exception (asc ''Llama client error: timed out'')))
   \<and> choose_model (str_lower llama_down_env) (asc ''Hello'') (asc ''en'') = asc ''heavy''"
proof -
  let ?run = "LocalLLMClient_chat sample_env empty_world namaste (asc ''hi'') []"
  let ?bad = "LocalLLMClient_chat llama_down_env empty_world (asc ''Hello'') (asc ''en'') []"
  have r: "?run = (fst ?run, snd ?run)" by simp
  have rb: "?bad = (fst ?bad, snd ?bad)" by simp
  have ch: "choose_model (str_lower sample_env) namaste (asc ''hi'') = asc ''light''"
    by (simp add: eval_defs namaste_def)
  have chb: "choose_model (str_lower llama_down_env) (asc ''Hello'') (asc ''en'') = asc ''heavy''"
    by (simp add: eval_defs llama_down_env_def)
  have ne: "asc ''heavy'' \<noteq> asc ''light''" by (simp add: asc_def)
  have w: "fst ?run = empty_world\<lparr>llm_calls := llm_calls empty_world @ [(Sarvam, build_messages namaste [])]\<rparr>"
    by (simp add: LocalLLMClient_chat_eq routed_def ch)
  have wb: "fst ?bad = empty_world\<lparr>llm_calls := llm_calls empty_world @ [(Llama, build_messages (asc ''Hello'') [])]\<rparr>"
    by (simp add: LocalLLMClient_chat_eq routed_def chb ne)
  from backend_is_router_choice [of sample_env empty_world namaste "asc ''hi''" "[]" "fst ?run" "snd ?run"]
  have "llm_calls (fst ?run) = llm_calls empty_world @ [(Sarvam, build_messages namaste [])]
     \<and> snd ?run = (case backend_chat sample_env Sarvam (build_messages namaste []) of
                  Inl err \<Rightarrow> Inl (Exception err)
                | Inr r \<Rightarrow> Inr \<lparr>reply = r, model_used = backend_name Sarvam,
                               result_session_id = None\<rparr>)"
    using r ch by (simp add: Let_def)
  then have s: "snd ?run = Inr \<lparr>reply = asc ''light reply'', model_used = asc ''sarvam-1'',
             result_session_id = None\<rparr>"
    by (simp add: backend_chat_def backend_name_def sample_env_def)
  from backend_is_router_choice [of llama_down_env empty_world "asc ''Hello''" "asc ''en''" "[]"
      "fst ?bad" "snd ?bad"]
  have "llm_calls (fst ?bad) = llm_calls empty_world @ [(Llama, build_messages (asc ''Hello'') [])]
     \<and> snd ?bad = (case backend_chat llama_down_env Llama (build_messages (asc ''Hello'') []) of
                  Inl err \<Rightarrow> Inl (Exception err)
                | Inr r \<Rightarrow> Inr \<lparr>reply = r, model_used = backend_name Llama,
                               result_session_id = None\<rparr>)"
    using rb chb ne by (simp add: Let_def)
  then have sb: "snd ?bad = Inl (Exception (asc ''Llama client error: timed out''))"
    by (simp add: backend_chat_def llama_down_env_def sample_env_def)
  from w s wb sb ch chb show ?thesis by (simp add: prod_eq_iff empty_world_def)
qed

section \<open>Chat turns\<close>

text \<open>
  C1. The router does not see the user's text alone. With a stored chunk that matches the
  query, \<open>chat_text\<close> appends the chunk to the text before it calls \<open>MemoriWrapper.chat\<close>, and
  the router decides on the extended text: the Hindi request \<open>namaste dost\<close> alone is
  routed to the light model, but the turn calls Llama, because the appended chunk contains
  the keyword \<open>detailed\<close>.
\<close>

theorem chat_text_routes_on_text_with_context:
  "choose_model (str_lower sample_env) (req_text sample_request) (req_lang sample_request)
     = asc ''light''
   \<and> llm_calls (fst (chat_text sample_env notes_world sample_request))
       = [(Llama, build_messages (asc ''namaste dost'' @ nl @ nl
            @ asc ''[Context from documents: namaste: a detailed greeting guide]'') [])]
   \<and> snd (chat_text sample_env notes_world sample_request)
       = Inr \<lparr>tr_user_text = asc ''namaste dost'', tr_assistant_text = asc ''heavy reply'',
              tr_lang = asc ''hi'', tr_model_used = asc ''llama-3.1-8b'',
              tr_session_id = asc ''65a1b2c3d4e5f60718293a4e''\<rparr>"
  by (simp add: eval_defs)


text \<open>
  In general: whenever retrieval gives context, the text that is routed and sent to the
  backend is the request text with the context appended.
\<close>

lemma chat_text_routed_text:
  assumes "memori_wrapper_set e"
      and "get_relevant_chunks e (chunks_col w) (req_user_id request) (req_text request) 5
             = Inr chunks"
      and "join (nl @ nl) chunks \<noteq> []"
  shows "\<exists>l. llm_calls (fst (chat_text e w request)) = llm_calls w @
           [(routed e (req_text request @ nl @ nl @ asc ''[Context from documents: ''
                        @ join (nl @ nl) chunks @ asc '']'') l,
             build_messages (req_text request @ nl @ nl @ asc ''[Context from documents: ''
                        @ join (nl @ nl) chunks @ asc '']'') [])]"
proof -
  obtain w1 sid where s: "get_or_create_session e w (req_user_id request)
      (req_session_id request) (req_text request) = (w1, sid)"
    by (cases "get_or_create_session e w (req_user_id request)
      (req_session_id request) (req_text request)")
  note cols = get_or_create_session_cols [OF s]
  from assms(3) have ne: "chunks \<noteq> []" by auto
  from assms cols ne show ?thesis
    by (auto simp: chat_text_def s MemoriWrapper_chat_eq Let_def split: sum.splits)
qed
lemma chat_text_backend_failure:
  assumes run: "chat_text e w request = (w', res)"
      and call: "llm_calls w' = llm_calls w @ [(b, ms)]"
      and fail: "backend_chat e b ms = Inl err"
  shows "res = Inl (Exception err) \<and> messages_col w' = messages_col w
         \<and> memori_messages w' = memori_messages w"
proof -
  obtain w1 sid where s: "get_or_create_session e w (req_user_id request)
      (req_session_id request) (req_text request) = (w1, sid)"
    by (cases "get_or_create_session e w (req_user_id request)
      (req_session_id request) (req_text request)")
  note cols = get_or_create_session_cols [OF s]
  from run call fail cols show ?thesis
    by (auto simp: chat_text_def s MemoriWrapper_chat_eq Let_def
        split: if_splits sum.splits prod.splits)
qed

lemma chat_audio_generate_backend_failure:
  assumes run: "chat_audio_generate e w u so a = (w', res)"
      and call: "llm_calls w' = llm_calls w @ [(b, ms)]"
      and fail: "backend_chat e b ms = Inl err"
  shows "res = Inl (Exception err) \<and> messages_col w' = messages_col w
         \<and> memori_messages w' = memori_messages w"
proof (cases "whisper_service e")
  case (Inl x)
  with run call show ?thesis by (auto simp: chat_audio_generate_def split: if_splits)
next
  case (Inr tr)
  show ?thesis
  proof (cases "tr a")
    case (Inl x)
    with Inr run call show ?thesis by (auto simp: chat_audio_generate_def split: if_splits)
  next
    case inr: (Inr p)
    obtain user_text lang where p: "p = (user_text, lang)" by (cases p)
    obtain w1 sid where s: "get_or_create_session e w u so user_text = (w1, sid)"
      by (cases "get_or_create_session e w u so user_text")
    note cols = get_or_create_session_cols [OF s]
    from run call fail cols Inr inr p show ?thesis
      by (auto simp: chat_audio_generate_def s MemoriWrapper_chat_eq Let_def
          split: if_splits sum.splits)
  qed
qed

lemma chat_audio_backend_failure:
  assumes run: "chat_audio e w u so a = (w', res)"
      and call: "llm_calls w' = llm_calls w @ [(b, ms)]"
      and fail: "backend_chat e b ms = Inl err"
  shows "res = Inl (Exception err) \<and> messages_col w' = messages_col w
         \<and> memori_messages w' = memori_messages w"
proof -
  obtain w2 r where g: "chat_audio_generate e w u so a = (w2, r)"
    by (cases "chat_audio_generate e w u so a")
  from run g have "llm_calls w' = llm_calls w2"
    by (auto simp: chat_audio_def Let_def split: sum.splits prod.splits if_splits)
  with call have c2: "llm_calls w2 = llm_calls w @ [(b, ms)]" by simp
  from chat_audio_generate_backend_failure [OF g c2 fail]
  have "r = Inl (Exception err)" "messages_col w2 = messages_col w"
    "memori_messages w2 = memori_messages w" by auto
  with run g show ?thesis by (simp add: chat_audio_def)
qed

text \<open>
  C7. In a chat turn, text or audio, whose backend call fails, the turn ends with that
  error, and neither the messages collection nor Memori's message store has changed.
\<close>

theorem gateway_failure_aborts_turn:
  "(chat_text e w request = (w', res) \<and> llm_calls w' = llm_calls w @ [(b, ms)]
      \<and> backend_chat e b ms = Inl err
    \<longrightarrow> res = Inl (Exception err) \<and> messages_col w' = messages_col w
        \<and> memori_messages w' = memori_messages w)
   \<and> (chat_audio e w user_id sid_opt audio = (w2, res2)
      \<and> llm_calls w2 = llm_calls w @ [(b2, ms2)] \<and> backend_chat e b2 ms2 = Inl err2
    \<longrightarrow> res2 = Inl (Exception err2) \<and> messages_col w2 = messages_col w
        \<and> memori_messages w2 = memori_messages w)"
  using chat_text_backend_failure [of e w request w' res b ms err]
    chat_audio_backend_failure [of e w user_id sid_opt audio w2 res2 b2 ms2 err2]
  by blast

theorem gateway_failure_aborts_turn_witness:
  "chat_text llama_down_env empty_world hello_request
     = (fst (chat_text llama_down_env empty_world hello_request),
        Inl (Exception (asc ''Llama client error: timed out'')))
   \<and> llm_calls (fst (chat_text llama_down_env empty_world hello_request))
       = [(Llama, build_messages (asc ''Hello'') [])]
   \<and> backend_chat llama_down_env Llama (build_messages (asc ''Hello'') [])
       = Inl (asc ''Llama client error: timed out'')
   \<and> messages_col (fst (chat_text llama_down_env empty_world hello_request)) = []
   \<and> memori_messages (fst (chat_text llama_down_env empty_world hello_request)) = []
   \<and> snd (chat_audio llama_down_env empty_world (asc ''u1'') None [82, 73, 70, 70])
       = Inl (Exception (asc ''Llama client error: timed out''))
   \<and> llm_calls (fst (chat_audio llama_down_env empty_world (asc ''u1'') None [82, 73, 70, 70]))
       = [(Llama, build_messages (asc ''hello there'') [])]
   \<and> messages_col (fst (chat_audio llama_down_env empty_world (asc ''u1'') None
         [82, 73, 70, 70])) = []
   \<and> memori_messages (fst (chat_audio llama_down_env empty_world (asc ''u1'') None
         [82, 73, 70, 70])) = []"
proof -
  let ?run = "chat_text llama_down_env empty_world hello_request"
  let ?aud = "chat_audio llama_down_env empty_world (asc ''u1'') None [82, 73, 70, 70]"
  have r: "?run = (fst ?run, snd ?run)" by simp
  have c: "llm_calls (fst ?run) = llm_calls empty_world @ [(Llama, build_messages (asc ''Hello'') [])]"
    by (simp add: eval_defs llama_down_env_def hello_request_def)
  have f: "backend_chat llama_down_env Llama (build_messages (asc ''Hello'') [])
       = Inl (asc ''Llama client error: timed out'')"
    by (simp add: backend_chat_def llama_down_env_def sample_env_def)
  have ra: "?aud = (fst ?aud, snd ?aud)" by simp
  have ca: "llm_calls (fst ?aud)
      = llm_calls empty_world @ [(Llama, build_messages (asc ''hello there'') [])]"
    by (simp add: eval_defs llama_down_env_def)
  have fa: "backend_chat llama_down_env Llama (build_messages (asc ''hello there'') [])
       = Inl (asc ''Llama client error: timed out'')"
    by (simp add: backend_chat_def llama_down_env_def sample_env_def)
  from gateway_failure_aborts_turn [of llama_down_env empty_world hello_request "fst ?run"
      "snd ?run" Llama "build_messages (asc ''Hello'') []" "asc ''Llama client error: timed out''"
      "asc ''u1''" None "[82, 73, 70, 70]" "fst ?aud" "snd ?aud" Llama
      "build_messages (asc ''hello there'') []" "asc ''Llama client error: timed out''"]
    r c f ra ca fa
  have "snd ?run = Inl (Exception (asc ''Llama client error: timed out''))
      \<and> messages_col (fst ?run) = messages_col empty_world
      \<and> memori_messages (fst ?run) = memori_messages empty_world
      \<and> snd ?aud = Inl (Exception (asc ''Llama client error: timed out''))
      \<and> messages_col (fst ?aud) = messages_col empty_world
      \<and> memori_messages (fst ?aud) = memori_messages empty_world"
    by blast
  with c f ca show ?thesis
    by (simp add: empty_world_def prod_eq_iff)
qed

lemma chat_text_lang_only:
  assumes "req_lang request = asc ''auto''"
      and "(case detect e (req_text request) of Some l \<Rightarrow> l | None \<Rightarrow> asc ''en'') = l'"
      and "l' \<noteq> asc ''auto''"
  shows "chat_text e w request = chat_text e w (request\<lparr>req_lang := l'\<rparr>)"
proof -
  have sel: "req_text (request\<lparr>req_lang := l'\<rparr>) = req_text request"
    "req_user_id (request\<lparr>req_lang := l'\<rparr>) = req_user_id request"
    "req_session_id (request\<lparr>req_lang := l'\<rparr>) = req_session_id request"
    "req_lang (request\<lparr>req_lang := l'\<rparr>) = l'"
    by simp_all
  have l: "(if req_lang request = asc ''auto''
            then (case detect e (req_text request) of Some l \<Rightarrow> l | None \<Rightarrow> asc ''en'')
            else req_lang request) = l'"
    using assms by simp
  have r: "(if l' = asc ''auto''
            then (case detect e (req_text request) of Some l \<Rightarrow> l | None \<Rightarrow> asc ''en'')
            else l') = l'"
    using assms by simp
  show ?thesis
    unfolding chat_text_def sel l r ..
qed

text \<open>
  C10. A text request with language \<open>auto\<close> is served exactly as the same request with the
  detected language; when detection raises, exactly as the same request with language
  \<open>en\<close>.
\<close>

theorem chat_text_auto_language:
  assumes "req_lang request = asc ''auto''"
  shows "(detect e (req_text request) = None \<longrightarrow>
            chat_text e w request = chat_text e w (request\<lparr>req_lang := asc ''en''\<rparr>))
       \<and> (\<forall>l. detect e (req_text request) = Some l \<longrightarrow>
            chat_text e w request = chat_text e w (request\<lparr>req_lang := l\<rparr>))"
proof (intro conjI impI allI)
  assume "detect e (req_text request) = None"
  then show "chat_text e w request = chat_text e w (request\<lparr>req_lang := asc ''en''\<rparr>)"
    using chat_text_lang_only [OF assms, of e "asc ''en''" w] by (simp add: asc_def)
next
  fix l assume d: "detect e (req_text request) = Some l"
  show "chat_text e w request = chat_text e w (request\<lparr>req_lang := l\<rparr>)"
  proof (cases "l = asc ''auto''")
    case True
    with assms have "request\<lparr>req_lang := l\<rparr> = request" by simp
    then show ?thesis by simp
  next
    case False
    with d show ?thesis using chat_text_lang_only [OF assms, of e l w] by simp
  qed
qed

theorem chat_text_auto_language_witness:
  "req_lang auto_request = asc ''auto''
   \<and> detect detect_fail_env (req_text auto_request) = None
   \<and> chat_text detect_fail_env empty_world auto_request
       = chat_text detect_fail_env empty_world (auto_request\<lparr>req_lang := asc ''en''\<rparr>)
   \<and> snd (chat_text detect_fail_env empty_world auto_request)
       = Inr \<lparr>tr_user_text = asc ''12345'', tr_assistant_text = asc ''heavy reply'',
              tr_lang = asc ''en'', tr_model_used = asc ''llama-3.1-8b'',
              tr_session_id = asc ''65a1b2c3d4e5f60718293a4c''\<rparr>
   \<and> detect (sample_env\<lparr>detect := (\<lambda>t. Some (asc ''hi''))\<rparr>) (req_text auto_request)
       = Some (asc ''hi'')
   \<and> chat_text (sample_env\<lparr>detect := (\<lambda>t. Some (asc ''hi''))\<rparr>) empty_world auto_request
       = chat_text (sample_env\<lparr>detect := (\<lambda>t. Some (asc ''hi''))\<rparr>) empty_world
           (auto_request\<lparr>req_lang := asc ''hi''\<rparr>)
   \<and> snd (chat_text (sample_env\<lparr>detect := (\<lambda>t. Some (asc ''hi''))\<rparr>) empty_world auto_request)
       = Inr \<lparr>tr_user_text = asc ''12345'', tr_assistant_text = asc ''light reply'',
              tr_lang = asc ''hi'', tr_model_used = asc ''sarvam-1'',
              tr_session_id = asc ''65a1b2c3d4e5f60718293a4c''\<rparr>"
proof -
  let ?hi = "sample_env\<lparr>detect := (\<lambda>t. Some (asc ''hi''))\<rparr>"
  have a: "req_lang auto_request = asc ''auto''" by (simp add: auto_request_def)
  have d: "detect detect_fail_env (req_text auto_request) = None"
    by (simp add: detect_fail_env_def)
  have e: "snd (chat_text detect_fail_env empty_world (auto_request\<lparr>req_lang := asc ''en''\<rparr>))
       = Inr \<lparr>tr_user_text = asc ''12345'', tr_assistant_text = asc ''heavy reply'',
              tr_lang = asc ''en'', tr_model_used = asc ''llama-3.1-8b'',
              tr_session_id = asc ''65a1b2c3d4e5f60718293a4c''\<rparr>"
    by (simp add: eval_defs detect_fail_env_def auto_request_def)
  have d2: "detect ?hi (req_text auto_request) = Some (asc ''hi'')" by simp
  have e2: "snd (chat_text ?hi empty_world (auto_request\<lparr>req_lang := asc ''hi''\<rparr>))
       = Inr \<lparr>tr_user_text = asc ''12345'', tr_assistant_text = asc ''light reply'',
              tr_lang = asc ''hi'', tr_model_used = asc ''sarvam-1'',
              tr_session_id = asc ''65a1b2c3d4e5f60718293a4c''\<rparr>"
    by (simp add: eval_defs auto_request_def)
  from chat_text_auto_language [OF a, of detect_fail_env empty_world] d
  have 1: "chat_text detect_fail_env empty_world auto_request
       = chat_text detect_fail_env empty_world (auto_request\<lparr>req_lang := asc ''en''\<rparr>)"
    by blast
  from chat_text_auto_language [OF a, of ?hi empty_world] d2
  have 2: "chat_text ?hi empty_world auto_request
       = chat_text ?hi empty_world (auto_request\<lparr>req_lang := asc ''hi''\<rparr>)"
    by blast
  from a d d2 e e2 1 2 show ?thesis by simp
qed

text \<open>
  C3, as stated, fails: with the chunk store refusing the query, the turn ends with the
  store's error and the world is unchanged.
\<close>

theorem chat_text_retrieval_failure_counterexample:
  "get_relevant_chunks store_down_env (chunks_col notes_world) (asc ''u1'') (asc ''namaste dost'') 5
     = Inl (asc ''connection refused'')
   \<and> chat_text store_down_env notes_world sample_request
     = (notes_world, Inl (Exception (asc ''connection refused'')))"
  by (simp add: eval_defs store_down_env_def)

text \<open>
  C3, amended. A failure of chunk retrieval is not recovered: the turn ends with the
  retrieval error, no backend is called, and nothing is written to the messages collection
  or to Memori's message store.
\<close>

theorem chat_text_retrieval_failure:
  assumes "memori_wrapper_set e"
      and "get_relevant_chunks e (chunks_col w) (req_user_id request) (req_text request) 5 = Inl err"
  shows "snd (chat_text e w request) = Inl (Exception err)
       \<and> llm_calls (fst (chat_text e w request)) = llm_calls w
       \<and> messages_col (fst (chat_text e w request)) = messages_col w
       \<and> memori_messages (fst (chat_text e w request)) = memori_messages w"
proof -
  obtain w1 sid where s: "get_or_create_session e w (req_user_id request)
      (req_session_id request) (req_text request) = (w1, sid)"
    by (cases "get_or_create_session e w (req_user_id request)
      (req_session_id request) (req_text request)")
  note cols = get_or_create_session_cols [OF s]
  from assms cols show ?thesis
    by (simp add: chat_text_def s)
qed

theorem chat_text_retrieval_failure_witness:
  "get_relevant_chunks store_down_env (chunks_col empty_world) (req_user_id hello_request)
      (req_text hello_request) 5 = Inl (asc ''connection refused'')
   \<and> snd (chat_text store_down_env empty_world hello_request)
       = Inl (Exception (asc ''connection refused''))
   \<and> llm_calls (fst (chat_text store_down_env empty_world hello_request)) = []
   \<and> messages_col (fst (chat_text store_down_env empty_world hello_request)) = []
   \<and> memori_messages (fst (chat_text store_down_env empty_world hello_request)) = []"
proof -
  have a: "memori_wrapper_set store_down_env" by (simp add: store_down_env_def sample_env_def)
  have b: "get_relevant_chunks store_down_env (chunks_col empty_world) (req_user_id hello_request)
      (req_text hello_request) 5 = Inl (asc ''connection refused'')"
    by (simp add: eval_defs store_down_env_def hello_request_def)
  from chat_text_retrieval_failure [OF a b] b show ?thesis by (simp add: empty_world_def)
qed

section \<open>Audio chat turns\<close>

text \<open>
  C2, as stated, fails: transcription and generation succeed, synthesis raises, and the turn
  ends with an HTTP 500 error instead of a response.
\<close>

theorem chat_audio_tts_failure_counterexample:
  "snd (chat_audio_generate tts_down_env empty_world (asc ''u1'') None [82, 73, 70, 70])
     = Inr (asc ''hello there'', asc ''en'', asc ''65a1b2c3d4e5f60718293a4c'',
            \<lparr>reply = asc ''heavy reply'', model_used = asc ''llama-3.1-8b'',
             result_session_id = Some (asc ''65a1b2c3d4e5f60718293a4c'')\<rparr>)
   \<and> snd (chat_audio tts_down_env empty_world (asc ''u1'') None [82, 73, 70, 70])
     = Inl (HTTPException 500 (asc ''TTS error: synthesis failed''))"
  by (simp add: eval_defs tts_down_env_def)

text \<open>
  C2, amended. When transcription and generation succeed and synthesis raises, the audio
  turn fails with HTTP 500 and the detail \<open>TTS error: \<close> followed by the cause; no response
  is returned and the messages collection is unchanged.
\<close>

theorem chat_audio_tts_failure:
  assumes "chat_audio_generate e w u so a = (w2, Inr (user_text, lang, sid, result))"
      and "tts_service e = Inr synth"
      and "synth (reply result) lang = Inl err"
  shows "chat_audio e w u so a = (w2, Inl (HTTPException 500 (asc ''TTS error: '' @ err)))
         \<and> messages_col w2 = messages_col w"
proof -
  have "messages_col w2 = messages_col w"
  proof -
    obtain tr where tr: "whisper_service e = Inr tr"
      using assms(1) by (auto simp: chat_audio_generate_def split: if_splits sum.splits)
    obtain w1 sid' where s: "get_or_create_session e w u so user_text = (w1, sid')"
      by (cases "get_or_create_session e w u so user_text")
    note cols = get_or_create_session_cols [OF s]
    from assms(1) cols show ?thesis
      by (auto simp: chat_audio_generate_def tr s MemoriWrapper_chat_eq Let_def
          split: if_splits sum.splits prod.splits)
  qed
  with assms show ?thesis by (simp add: chat_audio_def)
qed

theorem chat_audio_tts_failure_witness:
  "snd (chat_audio_generate tts_down_env notes_world (asc ''u1'') (Some (asc ''65a1b2c3d4e5f60718293a4e'')) [1])
     = Inr (asc ''hello there'', asc ''en'', asc ''65a1b2c3d4e5f60718293a4e'',
            \<lparr>reply = asc ''heavy reply'', model_used = asc ''llama-3.1-8b'',
             result_session_id = Some (asc ''65a1b2c3d4e5f60718293a4e'')\<rparr>)
   \<and> chat_audio tts_down_env notes_world (asc ''u1'') (Some (asc ''65a1b2c3d4e5f60718293a4e'')) [1]
     = (fst (chat_audio_generate tts_down_env notes_world (asc ''u1'')
               (Some (asc ''65a1b2c3d4e5f60718293a4e'')) [1]),
        Inl (HTTPException 500 (asc ''TTS error: synthesis failed'')))
   \<and> messages_col (fst (chat_audio_generate tts_down_env notes_world (asc ''u1'')
               (Some (asc ''65a1b2c3d4e5f60718293a4e'')) [1])) = []"
proof -
  let ?g = "chat_audio_generate tts_down_env notes_world (asc ''u1'')
               (Some (asc ''65a1b2c3d4e5f60718293a4e'')) [1]"
  let ?r = "\<lparr>reply = asc ''heavy reply'', model_used = asc ''llama-3.1-8b'',
             result_session_id = Some (asc ''65a1b2c3d4e5f60718293a4e'')\<rparr>"
  have s: "snd ?g = Inr (asc ''hello there'', asc ''en'', asc ''65a1b2c3d4e5f60718293a4e'', ?r)"
    by (simp add: eval_defs tts_down_env_def)
  then have g: "?g = (fst ?g, Inr (asc ''hello there'', asc ''en'',
      asc ''65a1b2c3d4e5f60718293a4e'', ?r))"
    by (simp add: prod_eq_iff)
  have t: "tts_service tts_down_env = Inr (\<lambda>t l. Inl (asc ''synthesis failed''))"
    by (simp add: tts_down_env_def)
  have f: "(\<lambda>t l. Inl (asc ''synthesis failed'') :: str + nat list) (reply ?r) (asc ''en'')
             = Inl (asc ''synthesis failed'')"
    by simp
  have m: "messages_col notes_world = []" by (simp add: notes_world_def empty_world_def)
  from chat_audio_tts_failure [OF g t f] s m show ?thesis by (simp add: asc_def)
qed

section \<open>Ingestion\<close>

lemma chat_text_stores:
  "chunks_col (fst (chat_text e w request)) = chunks_col w
   \<and> documents_col (fst (chat_text e w request)) = documents_col w"
proof -
  obtain w1 sid where s: "get_or_create_session e w (req_user_id request)
      (req_session_id request) (req_text request) = (w1, sid)"
    by (cases "get_or_create_session e w (req_user_id request)
      (req_session_id request) (req_text request)")
  note cols = get_or_create_session_cols [OF s]
  from cols show ?thesis
    by (auto simp: chat_text_def s MemoriWrapper_chat_eq Let_def split: if_splits sum.splits)
qed

lemma chat_audio_generate_stores:
  "chunks_col (fst (chat_audio_generate e w u so a)) = chunks_col w
   \<and> documents_col (fst (chat_audio_generate e w u so a)) = documents_col w"
proof (cases "whisper_service e")
  case (Inl err)
  then show ?thesis by (simp add: chat_audio_generate_def)
next
  case (Inr tr)
  show ?thesis
  proof (cases "tr a")
    case (Inl err)
    with Inr show ?thesis by (simp add: chat_audio_generate_def)
  next
    case inr: (Inr p)
    obtain user_text lang where p: "p = (user_text, lang)" by (cases p)
    obtain w1 sid where s: "get_or_create_session e w u so user_text = (w1, sid)"
      by (cases "get_or_create_session e w u so user_text")
    note cols = get_or_create_session_cols [OF s]
    from cols Inr inr p show ?thesis
      by (auto simp: chat_audio_generate_def s MemoriWrapper_chat_eq Let_def
          split: if_splits sum.splits)
  qed
qed

lemma chat_audio_stores:
  "chunks_col (fst (chat_audio e w u so a)) = chunks_col w
   \<and> documents_col (fst (chat_audio e w u so a)) = documents_col w"
proof -
  obtain w2 r where g: "chat_audio_generate e w u so a = (w2, r)"
    by (cases "chat_audio_generate e w u so a")
  from chat_audio_generate_stores [of e w u so a] g
  have "chunks_col w2 = chunks_col w \<and> documents_col w2 = documents_col w"
    by simp
  with g show ?thesis
    by (auto simp: chat_audio_def Let_def split: sum.splits prod.splits)
qed

text \<open>The records of a batch, by position: \<open>enumerate\<close> pairs the i-th chunk with i.\<close>

lemma enumerate_records:
  "map (\<lambda>(idx, c). \<lparr>c_document_id = d, c_user_id = u, c_text = c, c_chunk_index = idx\<rparr>)
       (enumerate 0 chunks)
   = map (\<lambda>i. \<lparr>c_document_id = d, c_user_id = u, c_text = chunks ! i, c_chunk_index = i\<rparr>)
       [0..<length chunks]"
  by (rule nth_equalityI) (simp_all add: nth_enumerate_eq)

text \<open>What an upload of a file that parses and chunks does to the two collections.\<close>

lemma save_uploaded_file_ok:
  assumes "parse_file e (upload_path e user_id (filename file)) (file_content file) = Inr parsed"
      and "chunk_text parsed (MAX_CHUNK_SIZE e) 128 = Some chunks"
  shows "\<exists>w'. save_uploaded_file e w user_id file = Some (w', Inr (inserted_document_id e))
           \<and> chunks_col w' = chunks_col w @
               map (\<lambda>i. \<lparr>c_document_id = inserted_document_id e, c_user_id = user_id,
                          c_text = chunks ! i, c_chunk_index = i\<rparr>) [0..<length chunks]
           \<and> inserted_document_id e \<in> fst ` set (documents_col w')"
proof (cases "chunks = []")
  case True
  with assms show ?thesis
    by (simp add: save_uploaded_file_def Let_def)
next
  case False
  with assms show ?thesis
    by (simp add: save_uploaded_file_def Let_def enumerate_records [symmetric])
qed

text \<open>
  An upload, whatever its outcome, appends chunks of its own new document id only and keeps
  the documents there are.
\<close>

lemma save_uploaded_file_appends:
  assumes "save_uploaded_file e w u f = Some (w', r)"
  shows "\<exists>more. chunks_col w' = chunks_col w @ more
           \<and> (\<forall>c \<in> set more. c_document_id c = inserted_document_id e)
           \<and> fst ` set (documents_col w) \<subseteq> fst ` set (documents_col w')"
  using assms
  by (auto simp: save_uploaded_file_def Let_def split: sum.splits option.splits if_splits)

lemma core_step_keeps:
  assumes "core_step w w'" and "d \<in> fst ` set (documents_col w)"
  shows "(\<exists>more. chunks_col w' = chunks_col w @ more
            \<and> (\<forall>c \<in> set more. c_document_id c \<noteq> d))
         \<and> d \<in> fst ` set (documents_col w')"
  using assms
proof (induction rule: core_step.induct)
  case (upload e w user_id f w' r)
  from save_uploaded_file_appends [OF upload.hyps(1)] obtain more where
    m: "chunks_col w' = chunks_col w @ more"
       "\<forall>c \<in> set more. c_document_id c = inserted_document_id e"
       "fst ` set (documents_col w) \<subseteq> fst ` set (documents_col w')"
    by blast
  from upload.hyps(2) upload.prems have "inserted_document_id e \<noteq> d" by auto
  with m upload.prems show ?case by auto
next
  case (text_turn e w request w' r)
  with chat_text_stores [of e w request] show ?case by simp
next
  case (audio_turn e w user_id sid_opt audio_bytes w' r)
  with chat_audio_stores [of e w user_id sid_opt audio_bytes] show ?case by simp
qed

lemma core_steps_keep:
  assumes "core_step\<^sup>*\<^sup>* w w'" and "d \<in> fst ` set (documents_col w)"
  shows "(\<exists>more. chunks_col w' = chunks_col w @ more
            \<and> (\<forall>c \<in> set more. c_document_id c \<noteq> d))
         \<and> d \<in> fst ` set (documents_col w')"
  using assms
proof (induction rule: rtranclp_induct)
  case base
  then show ?case by simp
next
  case (step y z)
  from step.IH [OF step.prems] obtain m1 where
    1: "chunks_col y = chunks_col w @ m1" "\<forall>c \<in> set m1. c_document_id c \<noteq> d"
       "d \<in> fst ` set (documents_col y)"
    by blast
  from core_step_keeps [OF step.hyps(2) 1(3)] obtain m2 where
    2: "chunks_col z = chunks_col y @ m2" "\<forall>c \<in> set m2. c_document_id c \<noteq> d"
       "d \<in> fst ` set (documents_col z)"
    by blast
  from 1 2 have "chunks_col z = chunks_col w @ (m1 @ m2)"
    "\<forall>c \<in> set (m1 @ m2). c_document_id c \<noteq> d"
    by auto
  with 2(3) show ?case by blast
qed

text \<open>
  Two runs of the chunker used below: a text without any delimiter is cut at the raw window
  ends, so 1025 letters give two chunks, and a short text gives one.
\<close>

lemma rfind_absent:
  assumes "x \<in> set sub" "x \<notin> set s"
  shows "rfind s sub lo hi = - 1"
proof -
  have "take (length sub) (drop i s) \<noteq> sub" for i
  proof
    assume "take (length sub) (drop i s) = sub"
    then have "set sub \<subseteq> set (drop i s)" by (metis set_take_subset)
    also have "\<dots> \<subseteq> set s" by (rule set_drop_subset)
    finally show False using assms by auto
  qed
  then show ?thesis by (simp add: rfind_def Let_def)
qed

lemma find_break_no_boundary:
  assumes "32 \<notin> set s" "10 \<notin> set s" "0 \<le> start + chunk_size div 2"
  shows "find_break boundary_chars s start e chunk_size = e"
proof -
  have "rfind s (asc ''. '') start e = - 1" "rfind s (asc ''? '') start e = - 1"
    "rfind s (asc ''! '') start e = - 1"
    using assms(1) by (auto intro!: rfind_absent [where x = 32] simp: asc_def)
  moreover have "rfind s (nl @ nl) start e = - 1"
    using assms(2) by (auto intro!: rfind_absent [where x = 10] simp: nl_def)
  ultimately show ?thesis using assms(3) by (simp add: boundary_chars_def Let_def)
qed

lemma long_text_chunks:
  "chunk_text (replicate 1025 97) 1024 128 = Some [replicate 1024 97, replicate 129 97]"
proof -
  have ne: "next_end (replicate 1025 97) 1024 0 = 1024"
    by (simp add: next_end_def find_break_no_boundary)
  have ne2: "next_end (replicate 1025 97) 1024 896 = 1920"
    by (simp add: next_end_def)
  have s1: "strip (slice (replicate 1025 97) 0 1024) = replicate 1024 97"
    by (simp add: strip_def slice_def adjust_index_def is_space_def Let_def)
  have s2: "strip (slice (replicate 1025 97) 896 1920) = replicate 129 97"
    by (simp add: strip_def slice_def adjust_index_def is_space_def Let_def)
  have "chunk_loop (replicate 1025 97) 1024 128 0 []
          = chunk_loop (replicate 1025 97) 1024 128 896 [replicate 1024 97]"
    by (subst chunk_loop_step) (simp_all add: ne s1)
  also have "\<dots> = chunk_loop (replicate 1025 97) 1024 128 1025
                      [replicate 1024 97, replicate 129 97]"
    by (subst chunk_loop_step) (simp_all add: ne2 s2)
  also have "\<dots> = Some [replicate 1024 97, replicate 129 97]"
    by (simp add: chunk_loop_done)
  finally show ?thesis by (simp add: chunk_text_def)
qed

lemma short_text_chunks: "chunk_text (asc ''Short text'') 1024 128 = Some [asc ''Short text'']"
  by (simp add: chunk_text_def chunk_loop_step chunk_loop_done next_end_def string_defs)

text \<open>
  C9. When the file parses and \<open>chunk_text\<close> returns, and the store's new document id is
  carried by no stored chunk, the upload succeeds and appends one batch: the record at
  position \<open>i\<close> holds the i-th chunk with index \<open>i\<close> under the new document id. In every
  state reached afterwards by uploads and chat turns (each upload getting a document id that
  no document has), the chunks of this document are exactly that batch, so their indices are
  \<open>0, 1, ..., n - 1\<close> without repetition, and the chunks stored at the upload are still there
  unchanged.
\<close>

theorem ingested_chunk_indices:
  assumes parsed: "parse_file e (upload_path e user_id (filename file)) (file_content file)
                     = Inr parsed"
      and chunked: "chunk_text parsed (MAX_CHUNK_SIZE e) 128 = Some chunks"
      and fresh: "\<forall>c \<in> set (chunks_col w). c_document_id c \<noteq> inserted_document_id e"
  shows "\<exists>w'. save_uploaded_file e w user_id file = Some (w', Inr (inserted_document_id e))
       \<and> chunks_col w' = chunks_col w @
           map (\<lambda>i. \<lparr>c_document_id = inserted_document_id e, c_user_id = user_id,
                      c_text = chunks ! i, c_chunk_index = i\<rparr>) [0..<length chunks]
       \<and> (\<forall>w''. core_step\<^sup>*\<^sup>* w' w'' \<longrightarrow>
             filter (\<lambda>c. c_document_id c = inserted_document_id e) (chunks_col w'')
               = map (\<lambda>i. \<lparr>c_document_id = inserted_document_id e, c_user_id = user_id,
                            c_text = chunks ! i, c_chunk_index = i\<rparr>) [0..<length chunks]
           \<and> map c_chunk_index
                 (filter (\<lambda>c. c_document_id c = inserted_document_id e) (chunks_col w''))
               = [0..<length chunks]
           \<and> distinct (map c_chunk_index
                 (filter (\<lambda>c. c_document_id c = inserted_document_id e) (chunks_col w'')))
           \<and> take (length (chunks_col w')) (chunks_col w'') = chunks_col w')"
proof -
  define batch where "batch = map (\<lambda>i. \<lparr>c_document_id = inserted_document_id e,
      c_user_id = user_id, c_text = chunks ! i, c_chunk_index = i\<rparr>) [0..<length chunks]"
  from save_uploaded_file_ok [OF parsed chunked, of w] obtain w' where
    run: "save_uploaded_file e w user_id file = Some (w', Inr (inserted_document_id e))"
    and col: "chunks_col w' = chunks_col w @ batch"
    and doc: "inserted_document_id e \<in> fst ` set (documents_col w')"
    unfolding batch_def by blast
  have own: "filter (\<lambda>c. c_document_id c = inserted_document_id e) batch = batch"
    by (simp add: batch_def filter_id_conv)
  from fresh have old: "filter (\<lambda>c. c_document_id c = inserted_document_id e) (chunks_col w) = []"
    by (simp add: filter_empty_conv)
  have idx: "map c_chunk_index batch = [0..<length chunks]"
    by (simp add: batch_def comp_def)
  have later: "filter (\<lambda>c. c_document_id c = inserted_document_id e) (chunks_col w'') = batch
           \<and> map c_chunk_index
                 (filter (\<lambda>c. c_document_id c = inserted_document_id e) (chunks_col w''))
               = [0..<length chunks]
           \<and> distinct (map c_chunk_index
                 (filter (\<lambda>c. c_document_id c = inserted_document_id e) (chunks_col w'')))
           \<and> take (length (chunks_col w')) (chunks_col w'') = chunks_col w'"
    if steps: "core_step\<^sup>*\<^sup>* w' w''" for w''
  proof -
    from core_steps_keep [OF steps doc] obtain more where
      m: "chunks_col w'' = chunks_col w' @ more"
         "\<forall>c \<in> set more. c_document_id c \<noteq> inserted_document_id e"
      by blast
    from m(2) have "filter (\<lambda>c. c_document_id c = inserted_document_id e) more = []"
      by (simp add: filter_empty_conv)
    with m(1) col old own
    have f: "filter (\<lambda>c. c_document_id c = inserted_document_id e) (chunks_col w'') = batch"
      by simp
    from m(1) have "take (length (chunks_col w')) (chunks_col w'') = chunks_col w'" by simp
    with f idx show ?thesis by simp
  qed
  from run col later show ?thesis unfolding batch_def by blast
qed

theorem ingested_chunk_indices_witness:
  "save_uploaded_file sample_env empty_world (asc ''u1'') long_file \<noteq> None
   \<and> chunks_col (fst (the (save_uploaded_file sample_env empty_world (asc ''u1'') long_file)))
       = [\<lparr>c_document_id = asc ''65a1b2c3d4e5f60718293a4d'', c_user_id = asc ''u1'',
           c_text = replicate 1024 97, c_chunk_index = 0\<rparr>,
          \<lparr>c_document_id = asc ''65a1b2c3d4e5f60718293a4d'', c_user_id = asc ''u1'',
           c_text = replicate 129 97, c_chunk_index = 1\<rparr>]
   \<and> chunks_col (fst (the (save_uploaded_file later_env
         (fst (the (save_uploaded_file sample_env empty_world (asc ''u1'') long_file)))
         (asc ''u1'') sample_file)))
       = [\<lparr>c_document_id = asc ''65a1b2c3d4e5f60718293a4d'', c_user_id = asc ''u1'',
           c_text = replicate 1024 97, c_chunk_index = 0\<rparr>,
          \<lparr>c_document_id = asc ''65a1b2c3d4e5f60718293a4d'', c_user_id = asc ''u1'',
           c_text = replicate 129 97, c_chunk_index = 1\<rparr>,
          \<lparr>c_document_id = asc ''65a1b2c3d4e5f60718293a50'', c_user_id = asc ''u1'',
           c_text = asc ''Short text'', c_chunk_index = 0\<rparr>]
   \<and> map c_chunk_index (filter (\<lambda>c. c_document_id c = asc ''65a1b2c3d4e5f60718293a4d'')
        (chunks_col (fst (the (save_uploaded_file later_env
           (fst (the (save_uploaded_file sample_env empty_world (asc ''u1'') long_file)))
           (asc ''u1'') sample_file)))))
       = [0, 1]"
proof -
  let ?id = "asc ''65a1b2c3d4e5f60718293a4d''"
  let ?id2 = "asc ''65a1b2c3d4e5f60718293a50''"
  let ?run1 = "save_uploaded_file sample_env empty_world (asc ''u1'') long_file"
  let ?w1 = "fst (the ?run1)"
  let ?run2 = "save_uploaded_file later_env ?w1 (asc ''u1'') sample_file"
  let ?w2 = "fst (the ?run2)"
  have id1: "inserted_document_id sample_env = ?id" by (simp add: sample_env_def)
  have id2: "inserted_document_id later_env = ?id2" by (simp add: later_env_def)
  have p1: "parse_file sample_env (upload_path sample_env (asc ''u1'') (filename long_file))
      (file_content long_file) = Inr (replicate 1025 97)"
    by (simp add: sample_env_def long_file_def)
  have c1: "chunk_text (replicate 1025 97) (MAX_CHUNK_SIZE sample_env) 128
      = Some [replicate 1024 97, replicate 129 97]"
    by (simp add: sample_env_def long_text_chunks)
  have f1: "\<forall>c \<in> set (chunks_col empty_world). c_document_id c \<noteq> inserted_document_id sample_env"
    by (simp add: empty_world_def)
  let ?C = "[replicate 1024 97, replicate 129 97 :: nat list]"
  let ?B = "map (\<lambda>i. \<lparr>c_document_id = inserted_document_id sample_env, c_user_id = asc ''u1'',
                      c_text = ?C ! i, c_chunk_index = i\<rparr>) [0..<length ?C]"
  let ?F = "\<lambda>w''. filter (\<lambda>c. c_document_id c = inserted_document_id sample_env) (chunks_col w'')"
  from ingested_chunk_indices [OF p1 c1 f1] obtain w' where
    all: "?run1 = Some (w', Inr (inserted_document_id sample_env))
       \<and> chunks_col w' = chunks_col empty_world @ ?B
       \<and> (\<forall>w''. core_step\<^sup>*\<^sup>* w' w'' \<longrightarrow>
             ?F w'' = ?B
           \<and> map c_chunk_index (?F w'') = [0..<length ?C]
           \<and> distinct (map c_chunk_index (?F w''))
           \<and> take (length (chunks_col w')) (chunks_col w'') = chunks_col w')"
    by (rule exE)
  from all have run1: "?run1 = Some (w', Inr (inserted_document_id sample_env))"
    by (rule conjunct1)
  from all have col1: "chunks_col w' = chunks_col empty_world @ ?B"
    by (rule conjunct2 [THEN conjunct1])
  from all have later1: "\<forall>w''. core_step\<^sup>*\<^sup>* w' w'' \<longrightarrow>
             ?F w'' = ?B
           \<and> map c_chunk_index (?F w'') = [0..<length ?C]
           \<and> distinct (map c_chunk_index (?F w''))
           \<and> take (length (chunks_col w')) (chunks_col w'') = chunks_col w'"
    by (rule conjunct2 [THEN conjunct2])
  from run1 have w1: "?w1 = w'" by simp
  from col1 have col1': "chunks_col w' =
       [\<lparr>c_document_id = ?id, c_user_id = asc ''u1'', c_text = replicate 1024 97,
          c_chunk_index = 0\<rparr>,
        \<lparr>c_document_id = ?id, c_user_id = asc ''u1'', c_text = replicate 129 97,
          c_chunk_index = 1\<rparr>]"
    by (simp add: id1 empty_world_def)
  have "fst ` set (documents_col ?w1) = {?id}"
    by (simp add: save_uploaded_file_def Let_def p1 c1 id1 empty_world_def)
  then have docs1: "fst ` set (documents_col w') = {?id}" by (simp only: w1)
  have p2: "parse_file later_env (upload_path later_env (asc ''u1'') (filename sample_file))
      (file_content sample_file) = Inr (asc ''Short text'')"
    by (simp add: later_env_def sample_env_def sample_file_def)
  have c2: "chunk_text (asc ''Short text'') (MAX_CHUNK_SIZE later_env) 128
      = Some [asc ''Short text'']"
    by (simp add: later_env_def sample_env_def short_text_chunks)
  from save_uploaded_file_ok [OF p2 c2, where w = w'] obtain w2 where
    all2: "save_uploaded_file later_env w' (asc ''u1'') sample_file
             = Some (w2, Inr (inserted_document_id later_env))
        \<and> chunks_col w2 = chunks_col w' @
           map (\<lambda>i. \<lparr>c_document_id = inserted_document_id later_env, c_user_id = asc ''u1'',
                      c_text = [asc ''Short text''] ! i, c_chunk_index = i\<rparr>)
             [0..<length [asc ''Short text'']]
        \<and> inserted_document_id later_env \<in> fst ` set (documents_col w2)"
    by (rule exE)
  from all2 have run2: "save_uploaded_file later_env w' (asc ''u1'') sample_file
             = Some (w2, Inr (inserted_document_id later_env))"
    by (rule conjunct1)
  from all2 have col2: "chunks_col w2 = chunks_col w' @
           map (\<lambda>i. \<lparr>c_document_id = inserted_document_id later_env, c_user_id = asc ''u1'',
                      c_text = [asc ''Short text''] ! i, c_chunk_index = i\<rparr>)
             [0..<length [asc ''Short text'']]"
    by (rule conjunct2 [THEN conjunct1])
  from run2 have w2: "fst (the (save_uploaded_file later_env w' (asc ''u1'') sample_file)) = w2"
    by simp
  have ne: "?id2 \<noteq> ?id" by (simp add: asc_def)
  from docs1 ne have fresh2: "inserted_document_id later_env \<notin> fst ` set (documents_col w')"
    by (simp add: id2)
  have "core_step w' w2" by (rule core_step.upload [OF run2 fresh2])
  then have "core_step\<^sup>*\<^sup>* w' w2" by (rule r_into_rtranclp)
  then have st: "core_step\<^sup>*\<^sup>* w' w2" .
  from later1 have "core_step\<^sup>*\<^sup>* w' w2 \<longrightarrow>
             ?F w2 = ?B
           \<and> map c_chunk_index (?F w2) = [0..<length ?C]
           \<and> distinct (map c_chunk_index (?F w2))
           \<and> take (length (chunks_col w')) (chunks_col w2) = chunks_col w'"
    by (rule spec)
  from this st have "?F w2 = ?B
           \<and> map c_chunk_index (?F w2) = [0..<length ?C]
           \<and> distinct (map c_chunk_index (?F w2))
           \<and> take (length (chunks_col w')) (chunks_col w2) = chunks_col w'"
    by (rule mp)
  then have "map c_chunk_index (?F w2) = [0..<length ?C]"
    by (rule conjunct2 [THEN conjunct1])
  then have idx: "map c_chunk_index
      (filter (\<lambda>c. c_document_id c = ?id) (chunks_col w2)) = [0, 1]"
    by (simp add: id1)
  from col2 col1' have col2': "chunks_col w2 =
       [\<lparr>c_document_id = ?id, c_user_id = asc ''u1'', c_text = replicate 1024 97,
          c_chunk_index = 0\<rparr>,
        \<lparr>c_document_id = ?id, c_user_id = asc ''u1'', c_text = replicate 129 97,
          c_chunk_index = 1\<rparr>,
        \<lparr>c_document_id = ?id2, c_user_id = asc ''u1'', c_text = asc ''Short text'',
          c_chunk_index = 0\<rparr>]"
    by (simp add: id2)
  from run1 have nn: "?run1 \<noteq> None" by simp
  show ?thesis
    unfolding w1 w2 using nn col1' col2' idx by simp
qed

end
